theory Spec2Isabelle
  imports Complex_Main "HOL-Library.Sublist"
begin

section \<open>Python values used by the validator\<close>

text \<open>
  The development embeds \<^verbatim>\<open>src/data_validator.py\<close>, the class
  \<^verbatim>\<open>TastyworksDataValidator\<close>.  Python strings are \<^typ>\<open>string\<close>; the substring
  test \<^verbatim>\<open>t in s\<close> is \<^const>\<open>sublist\<close>, \<^verbatim>\<open>s.endswith(t)\<close> is \<^const>\<open>suffix\<close>.
\<close>

datatype py_exn = KeyError string | AttributeError string | TypeError string

text \<open>\<^verbatim>\<open>str.strip()\<close>, with the white space of the ASCII range.  The header tokens
  neither start nor end with white space, so which characters are stripped changes no
  result of the detection (\<open>sublist_dropWhile\<close> holds for any set of them).\<close>

definition py_isspace :: "char \<Rightarrow> bool" where
  "py_isspace c = (c \<in> set [CHR 0x09, CHR 0x0A, CHR 0x0B, CHR 0x0C, CHR 0x0D,
                              CHR 0x1C, CHR 0x1D, CHR 0x1E, CHR 0x1F, CHR 0x20])"

definition strip :: "string \<Rightarrow> string" where
  "strip s = rev (dropWhile py_isspace (rev (dropWhile py_isspace s)))"

text \<open>\<^verbatim>\<open>str(n)\<close> for a non-negative integer, and \<^verbatim>\<open>format(n, ',')\<close>.\<close>

definition digit_char :: "nat \<Rightarrow> char" where
  "digit_char n = ''0123456789'' ! n"

function show_nat :: "nat \<Rightarrow> string" where
  "show_nat n = (if n < 10 then [digit_char n] else show_nat (n div 10) @ [digit_char (n mod 10)])"
  by pat_completeness auto
termination
  by (relation "measure id") auto

declare show_nat.simps [simp del]

definition show_int :: "int \<Rightarrow> string" where
  "show_int i = (if i < 0 then ''-'' @ show_nat (nat (- i)) else show_nat (nat i))"

function group3 :: "string \<Rightarrow> string" where
  "group3 ds = (if length ds \<le> 3 then ds
                else group3 (take (length ds - 3) ds) @ '','' @ drop (length ds - 3) ds)"
  by pat_completeness auto
termination
  by (relation "measure length") auto

declare group3.simps [simp del]

definition fmt_thousands :: "nat \<Rightarrow> string" where
  "fmt_thousands n = group3 (show_nat n)"

section \<open>The data frame\<close>

text \<open>
  A pandas \<^verbatim>\<open>DataFrame\<close> as \<^verbatim>\<open>read_csv\<close> returns it and the validator reads it:
  the list of column labels and the rows in file order.  A row carries the five columns
  the validator ever touches; a field whose label is not among \<open>columns\<close> is never read,
  because indexing an absent label raises \<^verbatim>\<open>KeyError\<close> (\<open>getcol\<close>).

  \<^verbatim>\<open>Symbol\<close> and \<^verbatim>\<open>Transaction Code\<close> cells are a string or \<^verbatim>\<open>NaN\<close>;
  \<^verbatim>\<open>Amount\<close> and \<^verbatim>\<open>Quantity\<close> cells are what the reader left there: a number, a
  string, or \<^verbatim>\<open>NaN\<close>.  Floating-point numbers are modelled by reals: an infinite
  float, and a \<^verbatim>\<open>Symbol\<close> or \<^verbatim>\<open>Transaction Code\<close> column whose cells pandas read as
  numbers, are not values of these types.

  A \<^verbatim>\<open>Date/Time\<close> cell is a parsed timestamp (nanoseconds since the epoch), a parsed
  timestamp that carries a UTC offset, \<^verbatim>\<open>NaT\<close>/\<^verbatim>\<open>NaN\<close>, or the text of the cell
  when \<^verbatim>\<open>parse_dates\<close> could not parse the column and returned it unaltered.
\<close>

type_synonym timestamp = int

datatype cell = Null | Text string | Number real

datatype date_cell = NaT | Stamp timestamp | Aware timestamp | DateText string

record row =
  date_time :: date_cell
  transaction_code :: "string option"
  symbol :: "string option"
  quantity :: cell
  amount :: cell

record dataframe =
  columns :: "string list"
  rows :: "row list"

text \<open>\<^verbatim>\<open>df[c]\<close>, with the field that holds column \<open>c\<close>.\<close>

definition getcol :: "dataframe \<Rightarrow> string \<Rightarrow> (row \<Rightarrow> 'a) \<Rightarrow> py_exn + 'a list" where
  "getcol d c f = (if c \<in> set (columns d) then Inr (map f (rows d)) else Inl (KeyError c))"

text \<open>\<^verbatim>\<open>Series.dropna()\<close>, \<^verbatim>\<open>Series.unique()\<close> (order of first appearance),
  \<^verbatim>\<open>Series.nunique()\<close>, \<^verbatim>\<open>Series.min()\<close> and \<^verbatim>\<open>Series.max()\<close> (nulls skipped,
  null when nothing is left).\<close>

fun dropna :: "'a option list \<Rightarrow> 'a list" where
  "dropna [] = []"
| "dropna (None # xs) = dropna xs"
| "dropna (Some x # xs) = x # dropna xs"

fun unique :: "'a list \<Rightarrow> 'a list" where
  "unique [] = []"
| "unique (x # xs) = x # unique (removeAll x xs)"

definition nunique :: "'a option list \<Rightarrow> nat" where
  "nunique xs = length (unique (dropna xs))"

definition series_min :: "timestamp option list \<Rightarrow> timestamp option" where
  "series_min xs = (case dropna xs of [] \<Rightarrow> None | y # ys \<Rightarrow> Some (fold min ys y))"

definition series_max :: "timestamp option list \<Rightarrow> timestamp option" where
  "series_max xs = (case dropna xs of [] \<Rightarrow> None | y # ys \<Rightarrow> Some (fold max ys y))"

subsection \<open>The Date/Time column\<close>

text \<open>
  The type pandas gives the column decides what the validator's expressions on it do.
  A frame without rows comes from a file that has only its header: its columns are empty
  and of type \<^verbatim>\<open>object\<close>.  A column with a cell left as text, or with timestamps of
  which some carry an offset and some do not, is of type \<^verbatim>\<open>object\<close>; otherwise it is
  \<^verbatim>\<open>datetime64\<close>, with a time zone when its timestamps carry an offset.
\<close>

datatype date_dtype = EmptyObject | ObjectDtype | AwareDatetime | NaiveDatetime

fun is_date_text :: "date_cell \<Rightarrow> bool" where
  "is_date_text (DateText _) = True"
| "is_date_text _ = False"

fun is_aware :: "date_cell \<Rightarrow> bool" where
  "is_aware (Aware _) = True"
| "is_aware _ = False"

fun is_naive :: "date_cell \<Rightarrow> bool" where
  "is_naive (Stamp _) = True"
| "is_naive _ = False"

definition dtype_of :: "date_cell list \<Rightarrow> date_dtype" where
  "dtype_of col =
     (if col = [] then EmptyObject
      else if list_ex is_date_text col \<or> (list_ex is_aware col \<and> list_ex is_naive col) then ObjectDtype
      else if list_ex is_aware col then AwareDatetime
      else NaiveDatetime)"

fun stamp :: "date_cell \<Rightarrow> timestamp option" where
  "stamp (Stamp t) = Some t"
| "stamp (Aware t) = Some t"
| "stamp _ = None"

text \<open>
  What \<^verbatim>\<open>min()\<close> and \<^verbatim>\<open>max()\<close> return: the float \<^verbatim>\<open>NaN\<close> on the empty object
  column, \<^verbatim>\<open>NaT\<close> or a timestamp on a datetime column, a string on a column of text
  (which string is never needed: every use the validator makes of it raises).  On an
  object column with a cell that is not text (a null, a timestamp) the comparison of the
  cells raises \<^verbatim>\<open>TypeError\<close>.  An exception raised by an operator or by the lookup of
  an attribute is recorded with the name of the operator or attribute.
\<close>

datatype scalar = FloatNaN | NaTv | Time timestamp | SomeText

definition column_min :: "date_cell list \<Rightarrow> py_exn + scalar" where
  "column_min col =
     (case dtype_of col of
        EmptyObject \<Rightarrow> Inr FloatNaN
      | ObjectDtype \<Rightarrow> if list_all is_date_text col then Inr SomeText else Inl (TypeError ''<='')
      | _ \<Rightarrow> Inr (case series_min (map stamp col) of None \<Rightarrow> NaTv | Some t \<Rightarrow> Time t))"

definition column_max :: "date_cell list \<Rightarrow> py_exn + scalar" where
  "column_max col =
     (case dtype_of col of
        EmptyObject \<Rightarrow> Inr FloatNaN
      | ObjectDtype \<Rightarrow> if list_all is_date_text col then Inr SomeText else Inl (TypeError ''>='')
      | _ \<Rightarrow> Inr (case series_max (map stamp col) of None \<Rightarrow> NaTv | Some t \<Rightarrow> Time t))"

text \<open>\<^verbatim>\<open>Series.value_counts()\<close> with its defaults: nulls dropped, one entry per distinct
  value, sorted by count, largest first (ties stay in order of first appearance);
  \<^verbatim>\<open>to_dict()\<close> keeps that order.\<close>

definition value_counts :: "string option list \<Rightarrow> (string \<times> nat) list" where
  "value_counts xs =
     (let vs = dropna xs
      in sort_key (\<lambda>(k, c). - int c) (map (\<lambda>k. (k, count_list vs k)) (unique vs)))"

text \<open>Comparisons and arithmetic on a float that may be \<^verbatim>\<open>NaN\<close> (\<open>None\<close>): every
  ordering and equality test with \<^verbatim>\<open>NaN\<close> is false, \<^verbatim>\<open>!=\<close> is true.\<close>

definition nan_eq :: "real option \<Rightarrow> real \<Rightarrow> bool" where
  "nan_eq a b = (case a of None \<Rightarrow> False | Some x \<Rightarrow> x = b)"

definition nan_ne :: "real option \<Rightarrow> real \<Rightarrow> bool" where
  "nan_ne a b = (case a of None \<Rightarrow> True | Some x \<Rightarrow> x \<noteq> b)"

definition nan_gt :: "real option \<Rightarrow> real \<Rightarrow> bool" where
  "nan_gt a b = (case a of None \<Rightarrow> False | Some x \<Rightarrow> x > b)"

definition nan_abs :: "real option \<Rightarrow> real option" where
  "nan_abs a = map_option abs a"

text \<open>\<^verbatim>\<open>q % 1\<close>: the result has the sign of the divisor, so it is the fractional part.\<close>

definition nan_mod1 :: "real option \<Rightarrow> real option" where
  "nan_mod1 a = map_option frac a"

section \<open>The validator object and its environment\<close>

text \<open>The fields of \<^verbatim>\<open>TastyworksDataValidator\<close>.  \<^verbatim>\<open>__init__\<close> does not create
  \<^verbatim>\<open>format_type\<close>: \<open>None\<close> there stands for the missing attribute.\<close>

record validator =
  csv_file :: string
  errors :: "string list"
  warnings :: "string list"
  df :: "dataframe option"
  format_type :: "string option"

definition init :: "string \<Rightarrow> validator" where
  "init path = \<lparr>csv_file = path, errors = [], warnings = [], df = None, format_type = None\<rparr>"

text \<open>
  What the validator calls and does not define is a parameter: the file system
  (\<open>readline\<close>: the first line of the file, or the text of the exception), the
  collaborator \<^verbatim>\<open>tw_pnl.transform_csv\<close>, \<^verbatim>\<open>pandas.read_csv\<close> with
  \<^verbatim>\<open>parse_dates=['Date/Time']\<close> (on a path or on a \<^verbatim>\<open>StringIO\<close> buffer), the clock
  \<^verbatim>\<open>datetime.now()\<close>, the number parser behind \<^verbatim>\<open>pandas.to_numeric\<close>, and the
  library's text formats of a date, of a list of strings and of a float (\<^verbatim>\<open>',.2f'\<close>).
  A failing call returns \<open>Inl\<close> with the text of its exception.
\<close>

datatype source = Path string | Buffer string

record env =
  readline :: "string \<Rightarrow> string + string"
  transform_csv :: "string \<Rightarrow> string + string"
  read_csv :: "source \<Rightarrow> string + dataframe"
  now :: timestamp
  parse_float :: "string \<Rightarrow> real option"
  fmt_date :: "timestamp \<Rightarrow> string"
  repr_list :: "string list \<Rightarrow> string"
  fmt_money :: "real \<Rightarrow> string"

text \<open>\<^verbatim>\<open>pd.to_numeric(..., errors='coerce')\<close> on one cell.\<close>

definition to_numeric :: "env \<Rightarrow> cell \<Rightarrow> real option" where
  "to_numeric e c = (case c of Null \<Rightarrow> None | Number x \<Rightarrow> Some x | Text s \<Rightarrow> parse_float e s)"

text \<open>The text of the date of a bound of a parsed column: of a timestamp or \<^verbatim>\<open>NaT\<close>.\<close>

definition fmt_date_opt :: "env \<Rightarrow> timestamp option \<Rightarrow> string" where
  "fmt_date_opt e t = (case t of None \<Rightarrow> ''NaT'' | Some x \<Rightarrow> fmt_date e x)"

subsection \<open>Statements that change the validator and may raise\<close>

text \<open>A method body is a function from the validator to its outcome and the validator
  as the statement left it: what was appended before an exception stays appended.\<close>

type_synonym 'a action = "validator \<Rightarrow> (py_exn + 'a) \<times> validator"

definition returnA :: "'a \<Rightarrow> 'a action" where
  "returnA x = (\<lambda>v. (Inr x, v))"

definition bindA :: "'a action \<Rightarrow> ('a \<Rightarrow> 'b action) \<Rightarrow> 'b action" where
  "bindA m f = (\<lambda>v. case m v of (Inl x, v') \<Rightarrow> (Inl x, v') | (Inr a, v') \<Rightarrow> f a v')"

definition liftE :: "py_exn + 'a \<Rightarrow> 'a action" where
  "liftE r = (\<lambda>v. (r, v))"

definition warn :: "string \<Rightarrow> unit action" where
  "warn msg = (\<lambda>v. (Inr (), v\<lparr>warnings := warnings v @ [msg]\<rparr>))"

fun for_each :: "'a list \<Rightarrow> ('a \<Rightarrow> unit action) \<Rightarrow> unit action" where
  "for_each [] body = returnA ()"
| "for_each (x # xs) body = bindA (body x) (\<lambda>_. for_each xs body)"

definition bindE :: "py_exn + 'a \<Rightarrow> ('a \<Rightarrow> py_exn + 'b) \<Rightarrow> py_exn + 'b" where
  "bindE r f = (case r of Inl x \<Rightarrow> Inl x | Inr a \<Rightarrow> f a)"

section \<open>Format detection\<close>

definition new_format_headers :: "string list" where
  "new_format_headers = [''Date'', ''Type'', ''Sub Type'', ''Action'', ''Symbol'', ''Value'']"

definition legacy_format_headers :: "string list" where
  "legacy_format_headers = [''Date/Time'', ''Transaction Code'', ''Transaction Subcode'', ''Amount'']"

definition validate_file_format :: "env \<Rightarrow> validator \<Rightarrow> bool \<times> validator" where
  "validate_file_format e v =
     (case readline e (csv_file v) of
        Inl msg \<Rightarrow> (False, v\<lparr>errors := errors v @ [''Cannot read file: '' @ msg]\<rparr>)
      | Inr line \<Rightarrow>
          (let first_line = strip line
           in if list_ex (\<lambda>header. sublist header first_line) new_format_headers
              then (True, v\<lparr>format_type := Some ''new''\<rparr>)
              else if list_ex (\<lambda>header. sublist header first_line) legacy_format_headers
              then (True, v\<lparr>format_type := Some ''legacy''\<rparr>)
              else (False, v\<lparr>errors := errors v @
                                  [''Invalid CSV format - missing required headers'']\<rparr>)))"

section \<open>Loading\<close>

definition no_format_type :: string where
  "no_format_type = [CHR 0x27] @ ''TastyworksDataValidator'' @ [CHR 0x27] @
     '' object has no attribute '' @ [CHR 0x27] @ ''format_type'' @ [CHR 0x27]"

text \<open>The statements under \<^verbatim>\<open>try\<close>: the frame assigned to \<^verbatim>\<open>self.df\<close>, or the
  text of the exception raised on the way (reading \<^verbatim>\<open>self.format_type\<close> included).\<close>

definition read_frame :: "env \<Rightarrow> validator \<Rightarrow> string + dataframe" where
  "read_frame e v =
     (case format_type v of
        None \<Rightarrow> Inl no_format_type
      | Some ft \<Rightarrow>
          if ft = ''new''
          then (case transform_csv e (csv_file v) of
                  Inl msg \<Rightarrow> Inl msg
                | Inr transformed_data \<Rightarrow> read_csv e (Buffer transformed_data))
          else read_csv e (Path (csv_file v)))"

definition load_data :: "env \<Rightarrow> validator \<Rightarrow> bool \<times> validator" where
  "load_data e v =
     (case read_frame e v of
        Inl msg \<Rightarrow> (False, v\<lparr>errors := errors v @ [''Error loading data: '' @ msg]\<rparr>)
      | Inr d \<Rightarrow> (True, v\<lparr>df := Some d\<rparr>))"

section \<open>Data quality checks\<close>

definition critical_columns :: "string list" where
  "critical_columns = [''Date/Time'', ''Amount'', ''Symbol'']"

text \<open>\<^verbatim>\<open>isna()\<close> on the cell a row has under a column label.\<close>

definition isna_col :: "string \<Rightarrow> row \<Rightarrow> bool" where
  "isna_col c r =
     (if c = ''Date/Time'' then date_time r = NaT
      else if c = ''Amount'' then amount r = Null
      else if c = ''Symbol'' then symbol r = None
      else if c = ''Transaction Code'' then transaction_code r = None
      else if c = ''Quantity'' then quantity r = Null
      else False)"

text \<open>The body of the loop over \<^verbatim>\<open>critical_columns\<close>.\<close>

definition check_missing_col :: "dataframe \<Rightarrow> string \<Rightarrow> unit action" where
  "check_missing_col d col =
     (if col \<in> set (columns d)
      then bindA (liftE (getcol d col (isna_col col))) (\<lambda>na.
             let missing_count = length (filter id na)
             in if missing_count > 0
                then warn (show_nat missing_count @ '' missing values in '' @ col)
                else returnA ())
      else returnA ())"

definition ns_per_day :: int where
  "ns_per_day = 86400000000000"

text \<open>\<^verbatim>\<open>(max_date - min_date).days\<close>: the whole days of a difference of timestamps,
  \<^verbatim>\<open>NaN\<close> (\<open>None\<close>) when a bound is \<^verbatim>\<open>NaT\<close>; a float has no attribute
  \<^verbatim>\<open>days\<close>, and strings have no difference.\<close>

fun days_between :: "scalar \<Rightarrow> scalar \<Rightarrow> py_exn + int option" where
  "days_between (Time mx) (Time mn) = Inr (Some ((mx - mn) div ns_per_day))"
| "days_between NaTv NaTv = Inr None"
| "days_between NaTv (Time _) = Inr None"
| "days_between (Time _) NaTv = Inr None"
| "days_between FloatNaN FloatNaN = Inl (AttributeError ''days'')"
| "days_between _ _ = Inl (TypeError ''-'')"

text \<open>The text of \<^verbatim>\<open>x.date()\<close> in an f-string; a float and a string have no attribute
  \<^verbatim>\<open>date\<close>.\<close>

fun date_str :: "env \<Rightarrow> scalar \<Rightarrow> py_exn + string" where
  "date_str e (Time t) = Inr (fmt_date e t)"
| "date_str e NaTv = Inr ''NaT''"
| "date_str e FloatNaN = Inl (AttributeError ''date'')"
| "date_str e SomeText = Inl (AttributeError ''date'')"

text \<open>\<^verbatim>\<open>self.df['Date/Time'] > datetime.now()\<close>: cell by cell on a column of timestamps
  without time zone (false on \<^verbatim>\<open>NaT\<close>); the clock's reading has no time zone, and
  its comparison with a column that has one, or with text, raises \<^verbatim>\<open>TypeError\<close>.\<close>

definition is_future :: "env \<Rightarrow> date_cell \<Rightarrow> bool" where
  "is_future e c = (case c of Stamp x \<Rightarrow> x > now e | _ \<Rightarrow> False)"

definition later_than_now :: "env \<Rightarrow> date_cell list \<Rightarrow> py_exn + bool list" where
  "later_than_now e col =
     (case dtype_of col of
        NaiveDatetime \<Rightarrow> Inr (map (is_future e) col)
      | EmptyObject \<Rightarrow> Inr []
      | _ \<Rightarrow> Inl (TypeError ''>''))"

definition check_dates :: "env \<Rightarrow> dataframe \<Rightarrow> unit action" where
  "check_dates e d =
     (if ''Date/Time'' \<in> set (columns d)
      then bindA (liftE (getcol d ''Date/Time'' date_time)) (\<lambda>col.
           bindA (liftE (column_min col)) (\<lambda>min_date.
           bindA (liftE (column_max col)) (\<lambda>max_date.
           bindA (liftE (days_between max_date min_date)) (\<lambda>date_range.
           bindA (case date_range of
                    None \<Rightarrow> returnA ()
                  | Some n \<Rightarrow>
                      if n > 2000
                      then bindA (liftE (date_str e min_date)) (\<lambda>lo.
                           bindA (liftE (date_str e max_date)) (\<lambda>hi.
                           warn (''Large date range detected: '' @ show_int n @
                                 '' days ('' @ lo @ '' to '' @ hi @ '')'')))
                      else returnA ()) (\<lambda>_.
           bindA (liftE (later_than_now e col)) (\<lambda>later.
             let future_dates = filter id later
             in if length future_dates > 0
                then warn (show_nat (length future_dates) @ '' transactions have future dates'')
                else returnA ()))))))
      else returnA ())"

text \<open>\<^verbatim>\<open>Series.isin(values)\<close> on one cell.\<close>

definition isin :: "string option \<Rightarrow> string list \<Rightarrow> bool" where
  "isin x vs = (case x of None \<Rightarrow> False | Some s \<Rightarrow> s \<in> set vs)"

text \<open>The block under \<^verbatim>\<open>if 'Amount' in self.df.columns\<close>.  The second index,
  \<^verbatim>\<open>self.df['Transaction Code']\<close>, stands under no test of its own.\<close>

definition check_amounts :: "env \<Rightarrow> dataframe \<Rightarrow> unit action" where
  "check_amounts e d =
     (if ''Amount'' \<in> set (columns d)
      then bindA (liftE (getcol d ''Amount'' amount)) (\<lambda>col.
             let amounts = map (to_numeric e) col;
                 large_amounts = filter (\<lambda>a. nan_gt (nan_abs a) 1000000) amounts
             in bindA (if length large_amounts > 0
                       then warn (show_nat (length large_amounts) @
                                  '' transactions with amounts > $1M'')
                       else returnA ()) (\<lambda>_.
                bindA (liftE (getcol d ''Transaction Code'' transaction_code)) (\<lambda>codes.
                  let zero_amounts = filter (\<lambda>(a, c). nan_eq a 0 \<and> \<not> isin c [''Receive Deliver''])
                                            (zip amounts codes)
                  in if length zero_amounts > 0
                     then warn (show_nat (length zero_amounts) @ '' transactions with zero amounts'')
                     else returnA ())))
      else returnA ())"

text \<open>\<^verbatim>\<open>re.match(r'^[A-Z/]{1,10}$', s)\<close>: \<^verbatim>\<open>$\<close> also matches before one final newline.\<close>

definition symbol_char :: "char \<Rightarrow> bool" where
  "symbol_char c = (c \<in> set ''ABCDEFGHIJKLMNOPQRSTUVWXYZ/'')"

definition str_match :: "string \<Rightarrow> bool" where
  "str_match s =
     (let body = (if s \<noteq> [] \<and> last s = CHR 0x0A then butlast s else s)
      in 1 \<le> length body \<and> length body \<le> 10 \<and> list_all symbol_char body)"

text \<open>\<^verbatim>\<open>symbols.str\<close>: the accessor exists on a column of type \<^verbatim>\<open>object\<close> only.
  A \<^verbatim>\<open>Symbol\<close> column with rows and no symbol in any of them is of type
  \<^verbatim>\<open>float64\<close>, and the accessor raises \<^verbatim>\<open>AttributeError\<close>.\<close>

definition str_accessor :: "string option list \<Rightarrow> py_exn + unit" where
  "str_accessor col =
     (if col \<noteq> [] \<and> dropna col = [] then Inl (AttributeError ''str'') else Inr ())"

definition check_symbols :: "env \<Rightarrow> dataframe \<Rightarrow> unit action" where
  "check_symbols e d =
     (if ''Symbol'' \<in> set (columns d)
      then bindA (liftE (getcol d ''Symbol'' symbol)) (\<lambda>col.
           let symbols = dropna col
           in bindA (liftE (str_accessor col)) (\<lambda>_.
              let unusual_symbols = filter (\<lambda>s. \<not> str_match s) symbols
              in if length unusual_symbols > 0
                 then (let unique_unusual = take 5 (unique unusual_symbols)
                       in warn (''Unusual symbol formats detected: '' @ repr_list e unique_unusual))
                 else returnA ()))
      else returnA ())"

definition validate_data_quality :: "env \<Rightarrow> bool action" where
  "validate_data_quality e v =
     (case df v of
        None \<Rightarrow> (Inr False, v)
      | Some d \<Rightarrow>
          bindA (for_each critical_columns (check_missing_col d)) (\<lambda>_.
          bindA (check_dates e d) (\<lambda>_.
          bindA (check_amounts e d) (\<lambda>_.
          bindA (check_symbols e d) (\<lambda>_.
          returnA True)))) v)"

section \<open>Transaction consistency\<close>

text \<open>The body of the loop over the symbols: \<^verbatim>\<open>symbol_data\<close> is the frame restricted to
  the rows of the symbol.\<close>

definition check_symbol_quantities :: "env \<Rightarrow> dataframe \<Rightarrow> string \<Rightarrow> unit action" where
  "check_symbol_quantities e d symb =
     (let symbol_data = d\<lparr>rows := filter (\<lambda>r. symbol r = Some symb) (rows d)\<rparr>
      in if \<not> suffix ''/USD'' symb
         then bindA (liftE (getcol symbol_data ''Quantity'' quantity)) (\<lambda>col.
                let quantities = map (to_numeric e) col;
                    fractional = filter (\<lambda>q. nan_ne (nan_mod1 q) 0) quantities
                in if length fractional > 0
                   then warn (''Fractional quantities found for '' @ symb @ '': '' @
                              show_nat (length fractional) @ '' transactions'')
                   else returnA ())
         else returnA ())"

definition validate_transaction_consistency :: "env \<Rightarrow> bool action" where
  "validate_transaction_consistency e v =
     (case df v of
        None \<Rightarrow> (Inr False, v)
      | Some d \<Rightarrow>
          bindA (if ''Symbol'' \<in> set (columns d) \<and> ''Quantity'' \<in> set (columns d)
                 then bindA (liftE (getcol d ''Symbol'' symbol)) (\<lambda>col.
                        for_each (unique (dropna col)) (check_symbol_quantities e d))
                 else returnA ()) (\<lambda>_.
          returnA True) v)"

section \<open>Summary statistics\<close>

record stats =
  total_transactions :: nat
  date_range :: "string option"
  unique_symbols :: nat
  transaction_types :: "(string \<times> nat) list"
  total_volume :: real

text \<open>The result is \<open>None\<close> for the empty dictionary returned when no frame is loaded.\<close>

definition generate_summary_stats :: "env \<Rightarrow> validator \<Rightarrow> py_exn + stats option" where
  "generate_summary_stats e v =
     (case df v of
        None \<Rightarrow> Inr None
      | Some d \<Rightarrow>
          (let stats0 = \<lparr>total_transactions = length (rows d), date_range = None,
                         unique_symbols = 0, transaction_types = [], total_volume = 0\<rparr>
           in bindE (if ''Date/Time'' \<in> set (columns d)
                     then bindE (getcol d ''Date/Time'' date_time) (\<lambda>col.
                          bindE (column_min col) (\<lambda>min_date.
                          bindE (column_max col) (\<lambda>max_date.
                          bindE (date_str e min_date) (\<lambda>lo.
                          bindE (date_str e max_date) (\<lambda>hi.
                            Inr (stats0\<lparr>date_range := Some (lo @ '' to '' @ hi)\<rparr>))))))
                     else Inr stats0) (\<lambda>stats1.
              bindE (if ''Symbol'' \<in> set (columns d)
                     then bindE (getcol d ''Symbol'' symbol) (\<lambda>col.
                            Inr (stats1\<lparr>unique_symbols := nunique col\<rparr>))
                     else Inr stats1) (\<lambda>stats2.
              bindE (if ''Transaction Code'' \<in> set (columns d)
                     then bindE (getcol d ''Transaction Code'' transaction_code) (\<lambda>col.
                            Inr (stats2\<lparr>transaction_types := value_counts col\<rparr>))
                     else Inr stats2) (\<lambda>stats3.
              bindE (if ''Amount'' \<in> set (columns d)
                     then bindE (getcol d ''Amount'' amount) (\<lambda>col.
                            let amounts = map (to_numeric e) col
                            in Inr (stats3\<lparr>total_volume := sum_list (map abs (dropna amounts))\<rparr>))
                     else Inr stats3) (\<lambda>stats4.
              Inr (Some stats4)))))))"

section \<open>The full run\<close>

text \<open>The non-ASCII prefixes of the printed lines, byte for byte as the source file has them.\<close>

definition icon_search :: string where
  "icon_search = [CHR 0xC4, CHR 0x9F, CHR 0xC5, CHR 0xB8, CHR 0xE2, CHR 0x80, CHR 0x9D]"

definition icon_cross :: string where
  "icon_cross = [CHR 0xC3, CHR 0xA2, CHR 0xC5, CHR 0x92]"

definition icon_check :: string where
  "icon_check = [CHR 0xC3, CHR 0xA2, CHR 0xC5, CHR 0x93, CHR 0xE2, CHR 0x80, CHR 0xA6]"

definition icon_chart :: string where
  "icon_chart = [CHR 0xC4, CHR 0x9F, CHR 0xC5, CHR 0xB8, CHR 0xE2, CHR 0x80, CHR 0x9C, CHR 0xC5, CHR 0xA0]"

definition icon_clipboard :: string where
  "icon_clipboard = [CHR 0xC4, CHR 0x9F, CHR 0xC5, CHR 0xB8, CHR 0xE2, CHR 0x80, CHR 0x9C,
                     CHR 0xE2, CHR 0x80, CHR 0xB9]"

definition icon_warning :: string where
  "icon_warning = [CHR 0xC3, CHR 0xA2, CHR 0xC5, CHR 0xA1, CHR 0xC2, CHR 0xA0, CHR 0xC3, CHR 0xAF,
                   CHR 0xC2, CHR 0xB8]"

definition icon_bullet :: string where
  "icon_bullet = [CHR 0xC3, CHR 0xA2, CHR 0xE2, CHR 0x82, CHR 0xAC, CHR 0xC2, CHR 0xA2]"

definition icon_target :: string where
  "icon_target = [CHR 0xC4, CHR 0x9F, CHR 0xC5, CHR 0xB8, CHR 0xC2, CHR 0xAF]"

definition newline :: string where
  "newline = [CHR 0x0A]"

text \<open>The part of \<^verbatim>\<open>run_full_validation\<close> from \<^verbatim>\<open># Display results\<close> on: the
  arguments of the \<^verbatim>\<open>print\<close> calls in order, and the value returned.\<close>

definition display_results :: "env \<Rightarrow> stats \<Rightarrow> validator \<Rightarrow> bool \<times> string list" where
  "display_results e st v =
     (let out =
            [newline @ icon_chart @ '' Data Summary:'',
             ''   Total transactions: '' @ fmt_thousands (total_transactions st),
             ''   Date range: '' @ (case date_range st of None \<Rightarrow> ''None'' | Some s \<Rightarrow> s),
             ''   Unique symbols: '' @ show_nat (unique_symbols st),
             ''   Total volume: $'' @ fmt_money e (total_volume st)] @
            (if transaction_types st \<noteq> []
             then [newline @ icon_clipboard @ '' Transaction Types:''] @
                  map (\<lambda>(ttype, n). ''   '' @ ttype @ '': '' @ fmt_thousands n) (transaction_types st)
             else []) @
            (if warnings v \<noteq> []
             then [newline @ icon_warning @ ''  Warnings ('' @ show_nat (length (warnings v)) @ ''):''] @
                  map (\<lambda>warning. ''   '' @ icon_bullet @ '' '' @ warning) (warnings v)
             else [])
      in if errors v \<noteq> []
         then (False,
               out @ [newline @ icon_cross @ '' Errors ('' @ show_nat (length (errors v)) @ ''):''] @
               map (\<lambda>error. ''   '' @ icon_bullet @ '' '' @ error) (errors v))
         else (True,
               out @
               (if warnings v = []
                then [newline @ icon_check @ '' No data quality issues detected!''] else []) @
               [newline @ icon_target @ '' Validation completed successfully!'']))"

definition no_len :: string where
  "no_len = ''object of type '' @ [CHR 0x27] @ ''NoneType'' @ [CHR 0x27] @ '' has no len()''"

text \<open>The outcome (the value returned, or the exception that escapes), the validator as
  the run left it, and the printed lines.\<close>

definition run_full_validation :: "env \<Rightarrow> validator \<Rightarrow> (py_exn + bool) \<times> validator \<times> string list" where
  "run_full_validation e v0 =
     (let out0 = [icon_search @ '' Validating Tastyworks data: '' @ csv_file v0,
                  replicate 60 (CHR ''='')];
          (ok1, v1) = validate_file_format e v0
      in if \<not> ok1 then (Inr False, v1, out0 @ [icon_cross @ '' File format validation failed''])
         else case format_type v1 of
           None \<Rightarrow> (Inl (AttributeError no_format_type), v1, out0)
         | Some ft \<Rightarrow>
             (let out1 = out0 @ [icon_check @ '' File format: '' @ ft];
                  (ok2, v2) = load_data e v1
              in if \<not> ok2 then (Inr False, v2, out1 @ [icon_cross @ '' Data loading failed''])
                 else case df v2 of
                   None \<Rightarrow> (Inl (TypeError no_len), v2, out1)
                 | Some d \<Rightarrow>
                     (let out2 = out1 @ [icon_check @ '' Data loaded: '' @
                                         show_nat (length (rows d)) @ '' transactions'']
                      in case validate_data_quality e v2 of
                           (Inl x, v3) \<Rightarrow> (Inl x, v3, out2)
                         | (Inr _, v3) \<Rightarrow>
                             (case validate_transaction_consistency e v3 of
                                (Inl x, v4) \<Rightarrow> (Inl x, v4, out2)
                              | (Inr _, v4) \<Rightarrow>
                                  (case generate_summary_stats e v4 of
                                     Inl x \<Rightarrow> (Inl x, v4, out2)
                                   | Inr None \<Rightarrow> (Inl (KeyError ''total_transactions''), v4, out2)
                                   | Inr (Some st) \<Rightarrow>
                                       (let (ok, out3) = display_results e st v4
                                        in (Inr ok, v4, out2 @ out3)))))))"

text \<open>\<^verbatim>\<open>main\<close>: the exit status of the process and the printed lines.  An exception
  that escapes ends the process with status 1.\<close>

definition main :: "env \<Rightarrow> string list \<Rightarrow> int \<times> string list" where
  "main e argv =
     (if length argv \<noteq> 2
      then (1, [''Usage: python data_validator.py <tastyworks_file.csv>''])
      else (case run_full_validation e (init (argv ! 1)) of
              (Inr success, _, out) \<Rightarrow> (if success then 0 else 1, out)
            | (Inl _, _, out) \<Rightarrow> (1, out)))"

section \<open>What the checks append\<close>

text \<open>The warnings of one run of the quality checks, rule by rule, as functions of the
  frame; the lemmas below show that the method appends exactly these, in this order.\<close>

definition missing_warnings :: "dataframe \<Rightarrow> string \<Rightarrow> string list" where
  "missing_warnings d col =
     (let n = length (filter (isna_col col) (rows d))
      in if col \<in> set (columns d) \<and> 0 < n then [show_nat n @ '' missing values in '' @ col] else [])"

text \<open>The \<^verbatim>\<open>Date/Time\<close> column was parsed: it holds timestamps (or \<^verbatim>\<open>NaT\<close>) in at
  least one row, all with an offset or all without; and the case that none has one.\<close>

definition parsed_dates :: "dataframe \<Rightarrow> bool" where
  "parsed_dates d = (dtype_of (map date_time (rows d)) = AwareDatetime \<or>
                     dtype_of (map date_time (rows d)) = NaiveDatetime)"

definition naive_dates :: "dataframe \<Rightarrow> bool" where
  "naive_dates d = (dtype_of (map date_time (rows d)) = NaiveDatetime)"

text \<open>How the date checks end.\<close>

definition date_outcome :: "dataframe \<Rightarrow> py_exn + unit" where
  "date_outcome d =
     (if ''Date/Time'' \<notin> set (columns d) then Inr ()
      else case dtype_of (map date_time (rows d)) of
             EmptyObject \<Rightarrow> Inl (AttributeError ''days'')
           | ObjectDtype \<Rightarrow> if list_all is_date_text (map date_time (rows d))
                             then Inl (TypeError ''-'') else Inl (TypeError ''<='')
           | AwareDatetime \<Rightarrow> Inl (TypeError ''>'')
           | NaiveDatetime \<Rightarrow> Inr ())"

definition range_warnings :: "env \<Rightarrow> dataframe \<Rightarrow> string list" where
  "range_warnings e d =
     (case (series_max (map stamp (map date_time (rows d))), series_min (map stamp (map date_time (rows d)))) of
        (Some hi, Some lo) \<Rightarrow>
          if ''Date/Time'' \<in> set (columns d) \<and> parsed_dates d \<and> 2000 < (hi - lo) div ns_per_day
          then [''Large date range detected: '' @ show_int ((hi - lo) div ns_per_day) @ '' days ('' @
                fmt_date e lo @ '' to '' @ fmt_date e hi @ '')'']
          else []
      | _ \<Rightarrow> [])"

definition future_count :: "env \<Rightarrow> dataframe \<Rightarrow> nat" where
  "future_count e d = length (filter (\<lambda>r. is_future e (date_time r)) (rows d))"

definition future_warnings :: "env \<Rightarrow> dataframe \<Rightarrow> string list" where
  "future_warnings e d =
     (if ''Date/Time'' \<in> set (columns d) \<and> naive_dates d \<and> 0 < future_count e d
      then [show_nat (future_count e d) @ '' transactions have future dates''] else [])"

definition large_amount_count :: "env \<Rightarrow> dataframe \<Rightarrow> nat" where
  "large_amount_count e d =
     length (filter (\<lambda>r. nan_gt (nan_abs (to_numeric e (amount r))) 1000000) (rows d))"

definition large_amount_warnings :: "env \<Rightarrow> dataframe \<Rightarrow> string list" where
  "large_amount_warnings e d =
     (if ''Amount'' \<in> set (columns d) \<and> 0 < large_amount_count e d
      then [show_nat (large_amount_count e d) @ '' transactions with amounts > $1M''] else [])"

definition zero_amount_count :: "env \<Rightarrow> dataframe \<Rightarrow> nat" where
  "zero_amount_count e d =
     length (filter (\<lambda>r. to_numeric e (amount r) = Some 0 \<and>
                          transaction_code r \<noteq> Some ''Receive Deliver'') (rows d))"

definition zero_amount_warning :: "nat \<Rightarrow> string" where
  "zero_amount_warning n = show_nat n @ '' transactions with zero amounts''"

definition zero_amount_warnings :: "env \<Rightarrow> dataframe \<Rightarrow> string list" where
  "zero_amount_warnings e d =
     (if ''Amount'' \<in> set (columns d) \<and> 0 < zero_amount_count e d
      then [zero_amount_warning (zero_amount_count e d)] else [])"

definition symbol_warnings :: "env \<Rightarrow> dataframe \<Rightarrow> string list" where
  "symbol_warnings e d =
     (let unusual = filter (\<lambda>s. \<not> str_match s) (dropna (map symbol (rows d)))
      in if ''Symbol'' \<in> set (columns d) \<and> unusual \<noteq> []
         then [''Unusual symbol formats detected: '' @ repr_list e (take 5 (unique unusual))] else [])"

text \<open>How the symbol check ends, and how the quality checks end.\<close>

definition symbol_outcome :: "dataframe \<Rightarrow> py_exn + unit" where
  "symbol_outcome d =
     (if ''Symbol'' \<in> set (columns d) then str_accessor (map symbol (rows d)) else Inr ())"

definition quality_outcome :: "dataframe \<Rightarrow> py_exn + bool" where
  "quality_outcome d =
     (case date_outcome d of
        Inl x \<Rightarrow> Inl x
      | Inr _ \<Rightarrow>
          if ''Amount'' \<in> set (columns d) \<and> ''Transaction Code'' \<notin> set (columns d)
          then Inl (KeyError ''Transaction Code'')
          else (case symbol_outcome d of Inl x \<Rightarrow> Inl x | Inr _ \<Rightarrow> Inr True))"

text \<open>The warnings appended up to the date checks, and by the whole of the quality checks:
  a rule behind the statement that raises appends nothing.\<close>

definition quality_prefix :: "env \<Rightarrow> dataframe \<Rightarrow> string list" where
  "quality_prefix e d =
     missing_warnings d ''Date/Time'' @ missing_warnings d ''Amount'' @ missing_warnings d ''Symbol'' @
     range_warnings e d @ future_warnings e d"

definition quality_warnings :: "env \<Rightarrow> dataframe \<Rightarrow> string list" where
  "quality_warnings e d =
     quality_prefix e d @
     (case date_outcome d of
        Inl _ \<Rightarrow> []
      | Inr _ \<Rightarrow>
          large_amount_warnings e d @
          (if ''Amount'' \<in> set (columns d) \<and> ''Transaction Code'' \<notin> set (columns d) then []
           else zero_amount_warnings e d @ symbol_warnings e d))"

text \<open>A quantity the fractional test \<^verbatim>\<open>q % 1 != 0\<close> selects: one that is not a number,
  or a number with a non-zero fractional part.\<close>

definition not_whole :: "real option \<Rightarrow> bool" where
  "not_whole a = (case a of None \<Rightarrow> True | Some q \<Rightarrow> frac q \<noteq> 0)"

definition fractional_count :: "env \<Rightarrow> dataframe \<Rightarrow> string \<Rightarrow> nat" where
  "fractional_count e d s =
     length (filter (\<lambda>r. symbol r = Some s \<and> not_whole (to_numeric e (quantity r))) (rows d))"

definition fractional_warning :: "string \<Rightarrow> nat \<Rightarrow> string" where
  "fractional_warning s n =
     ''Fractional quantities found for '' @ s @ '': '' @ show_nat n @ '' transactions''"

definition fractional_warnings :: "env \<Rightarrow> dataframe \<Rightarrow> string \<Rightarrow> string list" where
  "fractional_warnings e d s =
     (if \<not> suffix ''/USD'' s \<and> 0 < fractional_count e d s
      then [fractional_warning s (fractional_count e d s)] else [])"

definition consistency_warnings :: "env \<Rightarrow> dataframe \<Rightarrow> string list" where
  "consistency_warnings e d =
     (if ''Symbol'' \<in> set (columns d) \<and> ''Quantity'' \<in> set (columns d)
      then concat (map (fractional_warnings e d) (unique (dropna (map symbol (rows d)))))
      else [])"

definition all_warnings :: "env \<Rightarrow> dataframe \<Rightarrow> string list" where
  "all_warnings e d = quality_warnings e d @ consistency_warnings e d"

text \<open>The warnings a method added to those the validator had before the call.\<close>

definition new_warnings :: "validator \<Rightarrow> validator \<Rightarrow> string list" where
  "new_warnings v v' = drop (length (warnings v)) (warnings v')"

text \<open>The count the specification words describe: the rows of the symbol whose quantity is
  a number with a non-zero fractional part.\<close>

definition has_fraction :: "real option \<Rightarrow> bool" where
  "has_fraction a = (case a of None \<Rightarrow> False | Some q \<Rightarrow> frac q \<noteq> 0)"

definition proper_fraction_count :: "env \<Rightarrow> dataframe \<Rightarrow> string \<Rightarrow> nat" where
  "proper_fraction_count e d s =
     length (filter (\<lambda>r. symbol r = Some s \<and> has_fraction (to_numeric e (quantity r))) (rows d))"

definition missing_quantity_count :: "env \<Rightarrow> dataframe \<Rightarrow> string \<Rightarrow> nat" where
  "missing_quantity_count e d s =
     length (filter (\<lambda>r. symbol r = Some s \<and> to_numeric e (quantity r) = None) (rows d))"

text \<open>The number of rows of a transaction kind.\<close>

definition kind_count :: "dataframe \<Rightarrow> string \<Rightarrow> nat" where
  "kind_count d k = length (filter (\<lambda>r. transaction_code r = Some k) (rows d))"

text \<open>How \<^verbatim>\<open>generate_summary_stats\<close> ends on a frame, and the statistics it returns
  when it returns them.\<close>

definition summary_outcome :: "dataframe \<Rightarrow> py_exn + unit" where
  "summary_outcome d =
     (if ''Date/Time'' \<notin> set (columns d) then Inr ()
      else case dtype_of (map date_time (rows d)) of
             EmptyObject \<Rightarrow> Inl (AttributeError ''date'')
           | ObjectDtype \<Rightarrow> if list_all is_date_text (map date_time (rows d))
                             then Inl (AttributeError ''date'') else Inl (TypeError ''<='')
           | _ \<Rightarrow> Inr ())"

definition summary :: "env \<Rightarrow> dataframe \<Rightarrow> stats" where
  "summary e d =
     \<lparr>total_transactions = length (rows d),
      date_range = (if ''Date/Time'' \<in> set (columns d)
                    then Some (fmt_date_opt e (series_min (map stamp (map date_time (rows d)))) @ '' to '' @
                               fmt_date_opt e (series_max (map stamp (map date_time (rows d)))))
                    else None),
      unique_symbols = (if ''Symbol'' \<in> set (columns d) then nunique (map symbol (rows d)) else 0),
      transaction_types = (if ''Transaction Code'' \<in> set (columns d)
                           then value_counts (map transaction_code (rows d)) else []),
      total_volume = (if ''Amount'' \<in> set (columns d)
                      then sum_list (map abs (dropna (map (to_numeric e) (map amount (rows d)))))
                      else 0)\<rparr>"

text \<open>The lines every run prints first, and the two it prints after loading.\<close>

definition banner :: "validator \<Rightarrow> string list" where
  "banner v = [icon_search @ '' Validating Tastyworks data: '' @ csv_file v, replicate 60 (CHR ''='')]"

definition loaded_lines :: "string \<Rightarrow> dataframe \<Rightarrow> string list" where
  "loaded_lines ft d =
     [icon_check @ '' File format: '' @ ft,
      icon_check @ '' Data loaded: '' @ show_nat (length (rows d)) @ '' transactions'']"

section \<open>Example inputs\<close>

text \<open>An environment whose file has a given first line, whose reader returns a given
  frame and whose clock shows a given time; no string parses as a number.\<close>

definition example_env :: "string \<Rightarrow> dataframe \<Rightarrow> timestamp \<Rightarrow> env" where
  "example_env line d t =
     \<lparr>readline = (\<lambda>_. Inr line), transform_csv = (\<lambda>path. Inr path), read_csv = (\<lambda>_. Inr d),
      now = t, parse_float = (\<lambda>_. None), fmt_date = show_int, repr_list = concat,
      fmt_money = (\<lambda>x. show_int \<lfloor>x\<rfloor>)\<rparr>"

definition quiet_env :: env where
  "quiet_env = example_env [] \<lparr>columns = [], rows = []\<rparr> 0"

text \<open>One trade of \<^verbatim>\<open>AAPL\<close>, dated at the epoch: quantity 10, amount 0; a frame with
  all five columns is built from variants of it.\<close>

definition all_columns :: "string list" where
  "all_columns = [''Date/Time'', ''Transaction Code'', ''Symbol'', ''Quantity'', ''Amount'']"

definition trade_row :: row where
  "trade_row = \<lparr>date_time = Stamp 0, transaction_code = Some ''Trade'', symbol = Some ''AAPL'',
                 quantity = Number 10, amount = Number 0\<rparr>"

definition loaded :: "dataframe \<Rightarrow> validator" where
  "loaded d = (init ''f.csv'')\<lparr>df := Some d, format_type := Some ''legacy''\<rparr>"

definition legacy_validator :: validator where
  "legacy_validator = (init ''f.csv'')\<lparr>format_type := Some ''legacy''\<rparr>"

definition aapl_rows :: "row list" where
  "aapl_rows = [trade_row, trade_row\<lparr>quantity := Number (21 / 2)\<rparr>]"

definition btc_rows :: "row list" where
  "btc_rows = map (\<lambda>r. r\<lparr>symbol := Some ''BTC/USD''\<rparr>) aapl_rows"

definition blank_quantity_rows :: "row list" where
  "blank_quantity_rows = [trade_row, trade_row\<lparr>quantity := Null\<rparr>]"

definition text_quantity_rows :: "row list" where
  "text_quantity_rows = [trade_row, trade_row\<lparr>quantity := Text ''abc''\<rparr>]"

definition kind_rows :: "row list" where
  "kind_rows = [trade_row,
                trade_row\<lparr>transaction_code := Some ''Money Movement''\<rparr>,
                trade_row\<lparr>transaction_code := Some ''Money Movement''\<rparr>]"

definition blank_date_frame :: dataframe where
  "blank_date_frame = \<lparr>columns = all_columns, rows = [trade_row\<lparr>date_time := NaT\<rparr>]\<rparr>"

text \<open>A file whose header record is \<^verbatim>\<open>Amount,"Note\<close>, line break, \<^verbatim>\<open>x",Date/Time\<close>:
  the first line has the quoted field still open, the frame has no
  \<^verbatim>\<open>Transaction Code\<close> column.\<close>

definition crash_env :: env where
  "crash_env = example_env (''Amount,'' @ [CHR 0x22] @ ''Note'' @ newline)
                 \<lparr>columns = [''Amount'', ''Note'' @ newline @ ''x'', ''Date/Time''], rows = [trade_row]\<rparr> 0"

text \<open>One row dated 5, read at a clock \<open>t\<close>; the report line of its future-dates warning.\<close>

definition clock_frame :: dataframe where
  "clock_frame = \<lparr>columns = all_columns, rows = [trade_row\<lparr>date_time := Stamp 5\<rparr>]\<rparr>"

definition clock_env :: "timestamp \<Rightarrow> env" where
  "clock_env t = example_env ''Date,Type,Symbol'' clock_frame t"

definition future_line :: string where
  "future_line = ''   '' @ icon_bullet @ '' 1 transactions have future dates''"

section \<open>Format detection: the order of the tests\<close>

text \<open>Stripping the line changes nothing for a token that neither starts nor ends with
  white space.\<close>

lemma sublist_dropWhile:
  assumes "t \<noteq> []" "\<not> P (hd t)"
  shows "sublist t (dropWhile P s) \<longleftrightarrow> sublist t s"
proof (induction s)
  case Nil
  show ?case by simp
next
  case (Cons x xs)
  show ?case
  proof (cases "P x")
    case True
    have "\<not> prefix t (x # xs)"
      using assms True by (cases t) auto
    then show ?thesis
      using True Cons by (simp add: sublist_Cons_right)
  next
    case False
    then show ?thesis by simp
  qed
qed

lemma sublist_strip:
  assumes "t \<noteq> []" "\<not> py_isspace (hd t)" "\<not> py_isspace (last t)"
  shows "sublist t (strip s) \<longleftrightarrow> sublist t s"
proof -
  have "sublist t (strip s) \<longleftrightarrow> sublist (rev t) (dropWhile py_isspace (rev (dropWhile py_isspace s)))"
    unfolding strip_def by (metis rev_rev_ident sublist_rev)
  also have "\<dots> \<longleftrightarrow> sublist (rev t) (rev (dropWhile py_isspace s))"
    using assms by (intro sublist_dropWhile) (simp_all add: hd_rev)
  also have "\<dots> \<longleftrightarrow> sublist t (dropWhile py_isspace s)"
    by (rule sublist_rev)
  also have "\<dots> \<longleftrightarrow> sublist t s"
    using assms by (intro sublist_dropWhile)
  finally show ?thesis .
qed

lemma header_strip:
  assumes "t \<in> set (new_format_headers @ legacy_format_headers)"
  shows "sublist t (strip s) \<longleftrightarrow> sublist t s"
proof (rule sublist_strip)
  show "t \<noteq> []" using assms by (auto simp: new_format_headers_def legacy_format_headers_def)
  show "\<not> py_isspace (hd t)" using assms by (auto simp: new_format_headers_def legacy_format_headers_def py_isspace_def)
  show "\<not> py_isspace (last t)" using assms by (auto simp: new_format_headers_def legacy_format_headers_def py_isspace_def)
qed

lemma headers_strip:
  "list_ex (\<lambda>header. sublist header (strip s)) new_format_headers \<longleftrightarrow> (\<exists>t\<in>set new_format_headers. sublist t s)"
  "list_ex (\<lambda>header. sublist header (strip s)) legacy_format_headers \<longleftrightarrow> (\<exists>t\<in>set legacy_format_headers. sublist t s)"
  using header_strip by (auto simp: list_ex_iff)

text \<open>
  C1.  Whatever the first line of the file is, the tokens of the new format are tested
  first and the tokens of the legacy format only if none of them occurs in the line; a
  line with a legacy token and no new one is classified as legacy; a line with no token
  of either list makes detection fail with the message ``missing required headers'', and
  then the run returns \<open>False\<close> after printing the failure, whatever the transformer and the
  reader are: it never calls them.
\<close>

theorem format_detection:
  assumes "readline e (csv_file v) = Inr line"
  shows "validate_file_format e v =
           (if \<exists>t\<in>set new_format_headers. sublist t line
            then (True, v\<lparr>format_type := Some ''new''\<rparr>)
            else if \<exists>t\<in>set legacy_format_headers. sublist t line
            then (True, v\<lparr>format_type := Some ''legacy''\<rparr>)
            else (False, v\<lparr>errors := errors v @ [''Invalid CSV format - missing required headers'']\<rparr>))
         \<and> (\<not> (\<exists>t\<in>set (new_format_headers @ legacy_format_headers). sublist t line) \<longrightarrow>
              (\<forall>transform reader.
                 run_full_validation (e\<lparr>transform_csv := transform, read_csv := reader\<rparr>) v =
                   (Inr False,
                    v\<lparr>errors := errors v @ [''Invalid CSV format - missing required headers'']\<rparr>,
                    [icon_search @ '' Validating Tastyworks data: '' @ csv_file v,
                     replicate 60 (CHR ''=''),
                     icon_cross @ '' File format validation failed''])))"
proof -
  have det: "\<And>e'. readline e' = readline e \<Longrightarrow> validate_file_format e' v =
           (if \<exists>t\<in>set new_format_headers. sublist t line
            then (True, v\<lparr>format_type := Some ''new''\<rparr>)
            else if \<exists>t\<in>set legacy_format_headers. sublist t line
            then (True, v\<lparr>format_type := Some ''legacy''\<rparr>)
            else (False, v\<lparr>errors := errors v @ [''Invalid CSV format - missing required headers'']\<rparr>))"
    using assms by (simp add: validate_file_format_def headers_strip)
  show ?thesis
    by (simp add: det run_full_validation_def)
qed

theorem format_detection_witness:
  "validate_file_format (example_env ''Amount,Quantity'' \<lparr>columns = [], rows = []\<rparr> 0) (init ''f.csv'')
     = (True, (init ''f.csv'')\<lparr>format_type := Some ''legacy''\<rparr>)
   \<and> run_full_validation (example_env ''Price,Fees'' \<lparr>columns = [], rows = []\<rparr> 0) (init ''f.csv'')
     = (Inr False,
        (init ''f.csv'')\<lparr>errors := [''Invalid CSV format - missing required headers'']\<rparr>,
        [icon_search @ '' Validating Tastyworks data: f.csv'', replicate 60 (CHR ''=''),
         icon_cross @ '' File format validation failed''])"
proof -
  let ?d = "\<lparr>columns = [], rows = []\<rparr>"
  let ?v = "init ''f.csv''"
  let ?e1 = "example_env ''Amount,Quantity'' ?d 0"
  let ?e2 = "example_env ''Price,Fees'' ?d 0"
  have r1: "readline ?e1 (csv_file ?v) = Inr ''Amount,Quantity''"
    and r2: "readline ?e2 (csv_file ?v) = Inr ''Price,Fees''"
    by (simp_all add: example_env_def)
  have n1: "\<not> (\<exists>t\<in>set new_format_headers. sublist t ''Amount,Quantity'')"
    by (simp add: new_format_headers_def sublist_Cons_right)
  have l1: "\<exists>t\<in>set legacy_format_headers. sublist t ''Amount,Quantity''"
    by (simp add: legacy_format_headers_def sublist_Cons_right)
  have n2: "\<not> (\<exists>t\<in>set (new_format_headers @ legacy_format_headers). sublist t ''Price,Fees'')"
    by (simp add: new_format_headers_def legacy_format_headers_def sublist_Cons_right)
  have a: "validate_file_format ?e1 ?v = (True, ?v\<lparr>format_type := Some ''legacy''\<rparr>)"
    using format_detection [OF r1] n1 l1 by simp
  have "run_full_validation (?e2\<lparr>transform_csv := transform_csv ?e2, read_csv := read_csv ?e2\<rparr>) ?v =
          (Inr False, ?v\<lparr>errors := errors ?v @ [''Invalid CSV format - missing required headers'']\<rparr>,
           [icon_search @ '' Validating Tastyworks data: '' @ csv_file ?v, replicate 60 (CHR ''=''),
            icon_cross @ '' File format validation failed''])"
    using format_detection [OF r2] n2 by blast
  then have b: "run_full_validation ?e2 ?v =
          (Inr False, ?v\<lparr>errors := [''Invalid CSV format - missing required headers'']\<rparr>,
           [icon_search @ '' Validating Tastyworks data: f.csv'', replicate 60 (CHR ''=''),
            icon_cross @ '' File format validation failed''])"
    by (simp add: init_def)
  show ?thesis using a b by simp
qed

text \<open>The token \<^verbatim>\<open>Date\<close> of the new format occurs in the legacy header
  \<^verbatim>\<open>Date/Time\<close>: a first line that names the legacy date column is classified as new.\<close>

lemma date_time_header_is_new:
  assumes "readline e (csv_file v) = Inr line" and "sublist ''Date/Time'' line"
  shows "validate_file_format e v = (True, v\<lparr>format_type := Some ''new''\<rparr>)"
proof -
  have "sublist ''Date'' ''Date/Time''"
    by (simp add: sublist_Cons_right)
  then have "sublist ''Date'' line"
    using assms(2) by (rule sublist_order.order_trans)
  then have "\<exists>t\<in>set new_format_headers. sublist t line"
    by (simp add: new_format_headers_def)
  then show ?thesis
    using assms(1) by (simp add: validate_file_format_def headers_strip)
qed

section \<open>The quality checks, rule by rule\<close>

lemmas action_defs = bindA_def returnA_def liftE_def warn_def getcol_def

lemma check_missing_col_eq:
  "check_missing_col d col v = (Inr (), v\<lparr>warnings := warnings v @ missing_warnings d col\<rparr>)"
  by (simp add: check_missing_col_def missing_warnings_def action_defs Let_def filter_map o_def)

lemma for_each_critical:
  "for_each critical_columns (check_missing_col d) v =
     (Inr (), v\<lparr>warnings := warnings v @ missing_warnings d ''Date/Time'' @
                   missing_warnings d ''Amount'' @ missing_warnings d ''Symbol''\<rparr>)"
  by (simp add: critical_columns_def check_missing_col_eq bindA_def returnA_def)

lemma filter_id_map: "length (filter id (map f xs)) = length (filter f xs)"
  by (induction xs) auto

lemma check_dates_eq:
  "check_dates e d v =
     (date_outcome d, v\<lparr>warnings := warnings v @ range_warnings e d @ future_warnings e d\<rparr>)"
proof (cases "''Date/Time'' \<in> set (columns d)")
  case False
  then show ?thesis
    by (simp add: check_dates_def date_outcome_def range_warnings_def future_warnings_def returnA_def
          split: option.splits)
next
  case True
  show ?thesis
  proof (cases "dtype_of (map date_time (rows d))")
    case EmptyObject
    with True show ?thesis
      by (simp add: check_dates_def date_outcome_def range_warnings_def future_warnings_def
            parsed_dates_def naive_dates_def column_min_def column_max_def action_defs
            split: option.splits)
  next
    case ObjectDtype
    with True show ?thesis
      by (simp add: check_dates_def date_outcome_def range_warnings_def future_warnings_def
            parsed_dates_def naive_dates_def column_min_def column_max_def action_defs
            split: option.splits)
  next
    case AwareDatetime
    with True show ?thesis
      by (simp add: check_dates_def date_outcome_def range_warnings_def future_warnings_def
            parsed_dates_def naive_dates_def column_min_def column_max_def later_than_now_def action_defs
            split: option.splits)
  next
    case NaiveDatetime
    with True show ?thesis
      by (simp add: check_dates_def date_outcome_def range_warnings_def future_warnings_def
            parsed_dates_def naive_dates_def column_min_def column_max_def later_than_now_def action_defs
            future_count_def filter_id_map filter_map o_def Let_def
            split: option.splits)
  qed
qed

lemma filter_zip_map:
  "filter P (zip (map f rs) (map g rs)) = map (\<lambda>r. (f r, g r)) (filter (\<lambda>r. P (f r, g r)) rs)"
  by (induction rs) auto

lemma nan_eq_iff: "nan_eq a b \<longleftrightarrow> a = Some b"
  by (cases a) (auto simp: nan_eq_def)

lemma isin_single: "isin c [s] \<longleftrightarrow> c = Some s"
  by (cases c) (auto simp: isin_def)

lemma check_amounts_eq:
  "check_amounts e d v =
     (if ''Amount'' \<in> set (columns d) \<and> ''Transaction Code'' \<notin> set (columns d)
      then (Inl (KeyError ''Transaction Code''),
            v\<lparr>warnings := warnings v @ large_amount_warnings e d\<rparr>)
      else (Inr (), v\<lparr>warnings := warnings v @ large_amount_warnings e d @ zero_amount_warnings e d\<rparr>))"
  by (simp add: check_amounts_def large_amount_warnings_def zero_amount_warnings_def
        large_amount_count_def zero_amount_count_def zero_amount_warning_def
        filter_zip_map nan_eq_iff isin_single action_defs Let_def filter_map o_def)

lemma check_symbols_eq:
  "check_symbols e d v = (symbol_outcome d, v\<lparr>warnings := warnings v @ symbol_warnings e d\<rparr>)"
  by (simp add: check_symbols_def symbol_outcome_def str_accessor_def symbol_warnings_def
        action_defs Let_def)

lemma validate_data_quality_eq:
  assumes "df v = Some d"
  shows "validate_data_quality e v =
           (quality_outcome d, v\<lparr>warnings := warnings v @ quality_warnings e d\<rparr>)"
proof (cases "date_outcome d")
  case (Inl x)
  with assms show ?thesis
    by (simp add: validate_data_quality_def bindA_def for_each_critical check_dates_eq
          quality_outcome_def quality_warnings_def quality_prefix_def)
next
  case (Inr u)
  show ?thesis
  proof (cases "symbol_outcome d")
    case (Inl x)
    with Inr assms show ?thesis
      by (simp add: validate_data_quality_def bindA_def returnA_def for_each_critical check_dates_eq
            check_amounts_eq check_symbols_eq quality_outcome_def quality_warnings_def
            quality_prefix_def)
  next
    case (Inr w)
    with \<open>date_outcome d = Inr u\<close> assms show ?thesis
      by (simp add: validate_data_quality_def bindA_def returnA_def for_each_critical check_dates_eq
            check_amounts_eq check_symbols_eq quality_outcome_def quality_warnings_def
            quality_prefix_def)
  qed
qed

lemma date_outcome_ok:
  "date_outcome d = Inr () \<longleftrightarrow> (''Date/Time'' \<in> set (columns d) \<longrightarrow> naive_dates d)"
  by (simp add: date_outcome_def naive_dates_def split: date_dtype.splits)

lemma digit_char_mem: "n < 10 \<Longrightarrow> digit_char n \<in> set ''0123456789''"
  unfolding digit_char_def by (rule nth_mem) simp

lemma digit_char_inj:
  assumes "m < 10" "n < 10" "digit_char m = digit_char n"
  shows "m = n"
proof -
  have "distinct ''0123456789''" by simp
  moreover have "m < length ''0123456789''" "n < length ''0123456789''"
    using assms by simp_all
  ultimately show ?thesis
    using assms(3) unfolding digit_char_def by (simp only: nth_eq_iff_index_eq)
qed

lemma show_nat_digits: "show_nat n \<noteq> [] \<and> set (show_nat n) \<subseteq> set ''0123456789''"
proof (induction n rule: show_nat.induct)
  case (1 n)
  show ?case
  proof (cases "n < 10")
    case True
    then show ?thesis
      using digit_char_mem [of n] by (subst (1 2) show_nat.simps) simp
  next
    case False
    then show ?thesis
      using 1 digit_char_mem [of "n mod 10"] by (subst (1 2) show_nat.simps) simp
  qed
qed

lemma show_nat_nonempty: "show_nat n \<noteq> []"
  using show_nat_digits by blast


lemma show_nat_inj: "show_nat m = show_nat n \<Longrightarrow> m = n"
proof (induction m arbitrary: n rule: show_nat.induct)
  case (1 m)
  note eq = \<open>show_nat m = show_nat n\<close>
  show ?case
  proof (cases "m < 10")
    case m: True
    show ?thesis
    proof (cases "n < 10")
      case True
      with m eq have "digit_char m = digit_char n"
        by (simp add: show_nat.simps [of m] show_nat.simps [of n])
      with m True show ?thesis by (rule digit_char_inj)
    next
      case False
      with m eq have "show_nat (n div 10) = []"
        by (simp add: show_nat.simps [of m] show_nat.simps [of n])
      then show ?thesis using show_nat_nonempty by blast
    qed
  next
    case m: False
    show ?thesis
    proof (cases "n < 10")
      case True
      with m eq have "show_nat (m div 10) = []"
        by (simp add: show_nat.simps [of m] show_nat.simps [of n])
      then show ?thesis using show_nat_nonempty by blast
    next
      case False
      with m eq have a: "show_nat (m div 10) = show_nat (n div 10)"
        and b: "digit_char (m mod 10) = digit_char (n mod 10)"
        by (simp_all add: show_nat.simps [of m] show_nat.simps [of n])
      from "1.IH" [OF m a] have "m div 10 = n div 10" .
      moreover have "m mod 10 = n mod 10"
        using b by (intro digit_char_inj) simp_all
      ultimately show ?thesis
        by (metis div_mult_mod_eq)
    qed
  qed
qed










lemma new_warnings_append [simp]: "new_warnings v (v\<lparr>warnings := warnings v @ ws\<rparr>) = ws"
  by (simp add: new_warnings_def)



text \<open>
  C5.  The claim is that a frame lacking a column a rule needs makes the rule a silent
  no-op.  On a frame with an \<^verbatim>\<open>Amount\<close> column and no \<^verbatim>\<open>Transaction Code\<close>
  column the quality checks do not return: the zero-amount rule indexes the absent column
  and \<^verbatim>\<open>KeyError\<close> escapes.
\<close>

theorem quality_check_key_error:
  "validate_data_quality (example_env [] \<lparr>columns = [], rows = []\<rparr> 0)
       (loaded \<lparr>columns = [''Amount''], rows = [trade_row]\<rparr>)
     = (Inl (KeyError ''Transaction Code''),
        loaded \<lparr>columns = [''Amount''], rows = [trade_row]\<rparr>)"
  by (simp add: validate_data_quality_eq [of _ "\<lparr>columns = [''Amount''], rows = [trade_row]\<rparr>"] loaded_def
        quality_outcome_def quality_warnings_def date_outcome_def
        quality_prefix_def missing_warnings_def range_warnings_def future_warnings_def
        large_amount_warnings_def large_amount_count_def isna_col_def trade_row_def
        to_numeric_def nan_gt_def nan_abs_def Let_def series_min_def series_max_def
        split: option.splits)

section \<open>The consistency check, symbol by symbol\<close>

lemma nan_ne_mod1: "nan_ne (nan_mod1 a) 0 \<longleftrightarrow> not_whole a"
  by (cases a) (simp_all add: nan_ne_def nan_mod1_def not_whole_def)

lemma check_symbol_quantities_eq:
  assumes "''Quantity'' \<in> set (columns d)"
  shows "check_symbol_quantities e d s v =
           (Inr (), v\<lparr>warnings := warnings v @ fractional_warnings e d s\<rparr>)"
  using assms
  by (simp add: check_symbol_quantities_def fractional_warnings_def fractional_count_def
        fractional_warning_def action_defs Let_def filter_map o_def nan_ne_mod1 conj_commute)

lemma for_each_warnings:
  assumes "\<And>x v. body x v = (Inr (), v\<lparr>warnings := warnings v @ f x\<rparr>)"
  shows "for_each xs body v = (Inr (), v\<lparr>warnings := warnings v @ concat (map f xs)\<rparr>)"
  by (induction xs arbitrary: v) (simp_all add: returnA_def bindA_def assms)

lemma validate_transaction_consistency_eq:
  assumes "df v = Some d"
  shows "validate_transaction_consistency e v =
           (Inr True, v\<lparr>warnings := warnings v @ consistency_warnings e d\<rparr>)"
proof (cases "''Symbol'' \<in> set (columns d) \<and> ''Quantity'' \<in> set (columns d)")
  case True
  then have "for_each xs (check_symbol_quantities e d) w =
               (Inr (), w\<lparr>warnings := warnings w @ concat (map (fractional_warnings e d) xs)\<rparr>)" for xs w
    by (intro for_each_warnings check_symbol_quantities_eq) simp
  with True assms show ?thesis
    by (simp add: validate_transaction_consistency_def consistency_warnings_def action_defs)
next
  case False
  with assms show ?thesis
    by (auto simp: validate_transaction_consistency_def consistency_warnings_def action_defs)
qed

lemma set_dropna: "set (dropna xs) = {x. Some x \<in> set xs}"
  by (induction xs rule: dropna.induct) auto

lemma set_unique: "set (unique xs) = set xs"
  by (induction xs rule: unique.induct) auto

lemma distinct_unique: "distinct (unique xs)"
  by (induction xs rule: unique.induct) (auto simp: set_unique)

lemma takeWhile_digits:
  "takeWhile (\<lambda>c. c \<in> set ''0123456789'') (rev (u @ '': '' @ show_nat k)) = rev (show_nat k)"
proof -
  let ?P = "\<lambda>c. c \<in> set ''0123456789''"
  have "\<And>x. x \<in> set (rev (show_nat k)) \<Longrightarrow> ?P x"
    using show_nat_digits [of k] by (simp only: set_rev) blast
  then have "takeWhile ?P (rev (show_nat k) @ ('' :'' @ rev u)) =
               rev (show_nat k) @ takeWhile ?P ('' :'' @ rev u)"
    by (rule takeWhile_append2)
  moreover have "takeWhile ?P ('' :'' @ rev u) = []"
    by simp
  moreover have "rev (u @ '': '' @ show_nat k) = rev (show_nat k) @ ('' :'' @ rev u)"
    by simp
  ultimately show ?thesis
    by (simp only: append_Nil2)
qed

lemma fractional_warning_inj:
  assumes "fractional_warning s m = fractional_warning t n"
  shows "s = t \<and> m = n"
proof -
  let ?P = "\<lambda>c. c \<in> set ''0123456789''"
  have "(''Fractional quantities found for '' @ (s @ '': '' @ show_nat m)) @ '' transactions'' =
        (''Fractional quantities found for '' @ (t @ '': '' @ show_nat n)) @ '' transactions''"
    using assms unfolding fractional_warning_def by (simp only: append_assoc)
  then have "''Fractional quantities found for '' @ (s @ '': '' @ show_nat m) =
             ''Fractional quantities found for '' @ (t @ '': '' @ show_nat n)"
    by (simp only: append_same_eq)
  then have eq: "s @ '': '' @ show_nat m = t @ '': '' @ show_nat n"
    by (simp only: same_append_eq)
  have "takeWhile ?P (rev (s @ '': '' @ show_nat m)) = takeWhile ?P (rev (t @ '': '' @ show_nat n))"
    by (rule arg_cong [OF eq])
  then have "show_nat m = show_nat n"
    by (simp only: takeWhile_digits rev_is_rev_conv)
  then have mn: "m = n" by (rule show_nat_inj)
  have "s @ ('': '' @ show_nat n) = t @ ('': '' @ show_nat n)"
    using eq unfolding mn .
  then have "s = t" by (simp only: append_same_eq)
  with mn show ?thesis by blast
qed

lemma fractional_count_pos:
  assumes "0 < fractional_count e d s"
  shows "s \<in> set (unique (dropna (map symbol (rows d))))"
proof -
  from assms have "filter (\<lambda>r. symbol r = Some s \<and> not_whole (to_numeric e (quantity r))) (rows d) \<noteq> []"
    by (simp add: fractional_count_def)
  then obtain r where "r \<in> set (rows d)" "symbol r = Some s"
    by (auto simp: filter_empty_conv)
  then have "Some s \<in> set (map symbol (rows d))"
    by force
  then show ?thesis
    by (simp add: set_unique set_dropna)
qed

lemma fractional_warnings_mem:
  "fractional_warning s n \<in> set (fractional_warnings e d t) \<longleftrightarrow>
     s = t \<and> \<not> suffix ''/USD'' s \<and> n = fractional_count e d s \<and> 0 < n"
proof (cases "\<not> suffix ''/USD'' t \<and> 0 < fractional_count e d t")
  case True
  then have "fractional_warnings e d t = [fractional_warning t (fractional_count e d t)]"
    by (simp add: fractional_warnings_def)
  then show ?thesis
    using True fractional_warning_inj [of s n t "fractional_count e d t"] by auto
next
  case False
  then have "fractional_warnings e d t = []"
    by (simp add: fractional_warnings_def)
  then show ?thesis
    using False by auto
qed

lemma fractional_warning_mem:
  assumes "df v = Some d"
  shows "fractional_warning s n \<in> set (new_warnings v (snd (validate_transaction_consistency e v))) \<longleftrightarrow>
           ''Symbol'' \<in> set (columns d) \<and> ''Quantity'' \<in> set (columns d) \<and>
           \<not> suffix ''/USD'' s \<and> n = fractional_count e d s \<and> 0 < n"
proof -
  have "new_warnings v (snd (validate_transaction_consistency e v)) = consistency_warnings e d"
    using assms by (simp add: validate_transaction_consistency_eq)
  moreover have "fractional_warning s n \<in> set (consistency_warnings e d) \<longleftrightarrow>
           ''Symbol'' \<in> set (columns d) \<and> ''Quantity'' \<in> set (columns d) \<and>
           \<not> suffix ''/USD'' s \<and> n = fractional_count e d s \<and> 0 < n"
  proof (cases "''Symbol'' \<in> set (columns d) \<and> ''Quantity'' \<in> set (columns d)")
    case True
    then have "fractional_warning s n \<in> set (consistency_warnings e d) \<longleftrightarrow>
                 (\<exists>t\<in>set (unique (dropna (map symbol (rows d)))). fractional_warning s n \<in> set (fractional_warnings e d t))"
      by (simp add: consistency_warnings_def)
    also have "\<dots> \<longleftrightarrow> s \<in> set (unique (dropna (map symbol (rows d)))) \<and>
                 \<not> suffix ''/USD'' s \<and> n = fractional_count e d s \<and> 0 < n"
      unfolding fractional_warnings_mem by blast
    also have "\<dots> \<longleftrightarrow> \<not> suffix ''/USD'' s \<and> n = fractional_count e d s \<and> 0 < n"
      using fractional_count_pos [of e d s] by blast
    finally show ?thesis using True by simp
  next
    case False
    then show ?thesis by (auto simp: consistency_warnings_def)
  qed
  ultimately show ?thesis by simp
qed

lemma count_split:
  "fractional_count e d s = proper_fraction_count e d s + missing_quantity_count e d s"
proof -
  have "length (filter (\<lambda>r. symbol r = Some s \<and> not_whole (to_numeric e (quantity r))) rs) =
        length (filter (\<lambda>r. symbol r = Some s \<and> has_fraction (to_numeric e (quantity r))) rs) +
        length (filter (\<lambda>r. symbol r = Some s \<and> to_numeric e (quantity r) = None) rs)" for rs
    by (induction rs) (auto simp: not_whole_def has_fraction_def split: option.splits)
  then show ?thesis
    by (simp add: fractional_count_def proper_fraction_count_def missing_quantity_count_def)
qed

text \<open>
  C7.  The claim is that the check counts the rows whose quantity has a non-zero
  fractional part.  For \<^verbatim>\<open>AAPL\<close> with the quantities 10 and an empty cell no row has
  a fractional part, and the check returns with the warning that one transaction of
  \<^verbatim>\<open>AAPL\<close> has a fractional quantity: the empty cell is \<^verbatim>\<open>NaN\<close>, and
  \<^verbatim>\<open>NaN % 1 != 0\<close> is true.
\<close>

theorem blank_quantity_reported_fractional:
  "validate_transaction_consistency quiet_env (loaded \<lparr>columns = all_columns, rows = blank_quantity_rows\<rparr>) =
     (Inr True,
      (loaded \<lparr>columns = all_columns, rows = blank_quantity_rows\<rparr>)
        \<lparr>warnings := [''Fractional quantities found for AAPL: 1 transactions'']\<rparr>) \<and>
   proper_fraction_count quiet_env \<lparr>columns = all_columns, rows = blank_quantity_rows\<rparr> ''AAPL'' = 0"
proof -
  let ?d = "\<lparr>columns = all_columns, rows = blank_quantity_rows\<rparr>"
  have p: "df (loaded ?d) = Some ?d" by (simp add: loaded_def)
  have e: "warnings (loaded ?d) = []" by (simp add: loaded_def init_def)
  have c: "fractional_count quiet_env ?d ''AAPL'' = 1"
    by (simp add: fractional_count_def blank_quantity_rows_def trade_row_def to_numeric_def not_whole_def)
  have u: "unique (dropna (map symbol blank_quantity_rows)) = [''AAPL'']"
    by (simp add: blank_quantity_rows_def trade_row_def)
  have f: "fractional_warnings quiet_env ?d ''AAPL'' =
             [''Fractional quantities found for AAPL: 1 transactions'']"
    unfolding fractional_warnings_def c
    by (simp add: fractional_warning_def suffix_def show_nat.simps digit_char_def)
  have cols: "''Symbol'' \<in> set all_columns" "''Quantity'' \<in> set all_columns"
    by (simp_all add: all_columns_def)
  have w: "consistency_warnings quiet_env ?d = [''Fractional quantities found for AAPL: 1 transactions'']"
    by (simp add: consistency_warnings_def u f cols)
  have "proper_fraction_count quiet_env ?d ''AAPL'' = 0"
    by (simp add: proper_fraction_count_def blank_quantity_rows_def trade_row_def to_numeric_def has_fraction_def)
  then show ?thesis
    by (simp add: validate_transaction_consistency_eq [OF p] w e)
qed

text \<open>
  C10.  A row whose symbol does not end in \<^verbatim>\<open>/USD\<close> and whose quantity is not
  parseable as a number is counted by the fractional test: the count reported for the
  symbol is the number of its rows with a non-zero fractional part plus the number of its
  rows without a number, the latter is positive, and the warning for the symbol is
  emitted with that count, also when no row has a fractional part.
\<close>

theorem unparseable_quantity_counts:
  assumes "df v = Some d" and "''Symbol'' \<in> set (columns d)" and "''Quantity'' \<in> set (columns d)"
    and "r \<in> set (rows d)" and "symbol r = Some s" and "\<not> suffix ''/USD'' s"
    and "to_numeric e (quantity r) = None"
  shows "fractional_warning s (fractional_count e d s) \<in>
           set (new_warnings v (snd (validate_transaction_consistency e v))) \<and>
         fractional_count e d s = proper_fraction_count e d s + missing_quantity_count e d s \<and>
         0 < missing_quantity_count e d s"
proof -
  have "r \<in> set (filter (\<lambda>r. symbol r = Some s \<and> to_numeric e (quantity r) = None) (rows d))"
    using assms by simp
  then have m: "0 < missing_quantity_count e d s"
    unfolding missing_quantity_count_def by (metis length_pos_if_in_set)
  then have "0 < fractional_count e d s"
    by (simp add: count_split)
  then have "fractional_warning s (fractional_count e d s) \<in>
           set (new_warnings v (snd (validate_transaction_consistency e v)))"
    using assms by (simp add: fractional_warning_mem)
  with m show ?thesis
    by (simp add: count_split)
qed

theorem unparseable_quantity_counts_witness:
  "''Fractional quantities found for AAPL: 1 transactions'' \<in>
     set (new_warnings (loaded \<lparr>columns = all_columns, rows = text_quantity_rows\<rparr>)
            (snd (validate_transaction_consistency quiet_env
                    (loaded \<lparr>columns = all_columns, rows = text_quantity_rows\<rparr>)))) \<and>
   proper_fraction_count quiet_env \<lparr>columns = all_columns, rows = text_quantity_rows\<rparr> ''AAPL'' = 0 \<and>
   missing_quantity_count quiet_env \<lparr>columns = all_columns, rows = text_quantity_rows\<rparr> ''AAPL'' = 1"
proof -
  let ?d = "\<lparr>columns = all_columns, rows = text_quantity_rows\<rparr>"
  let ?r = "trade_row\<lparr>quantity := Text ''abc''\<rparr>"
  have p: "df (loaded ?d) = Some ?d" by (simp add: loaded_def)
  have q: "''Symbol'' \<in> set (columns ?d)" "''Quantity'' \<in> set (columns ?d)"
    by (simp_all add: all_columns_def)
  have r: "?r \<in> set (rows ?d)" "symbol ?r = Some ''AAPL''" "\<not> suffix ''/USD'' ''AAPL''"
    "to_numeric quiet_env (quantity ?r) = None"
    by (simp_all add: text_quantity_rows_def trade_row_def suffix_def to_numeric_def quiet_env_def example_env_def)
  have c: "proper_fraction_count quiet_env ?d ''AAPL'' = 0"
    by (simp add: proper_fraction_count_def text_quantity_rows_def trade_row_def to_numeric_def
          has_fraction_def quiet_env_def example_env_def)
  have k: "missing_quantity_count quiet_env ?d ''AAPL'' = 1"
    by (simp add: missing_quantity_count_def text_quantity_rows_def trade_row_def to_numeric_def
          quiet_env_def example_env_def)
  have m: "fractional_warning ''AAPL'' 1 = ''Fractional quantities found for AAPL: 1 transactions''"
    by (simp add: fractional_warning_def show_nat.simps digit_char_def)
  from unparseable_quantity_counts [OF p q r]
  have w: "fractional_warning ''AAPL'' (fractional_count quiet_env ?d ''AAPL'') \<in>
             set (new_warnings (loaded ?d) (snd (validate_transaction_consistency quiet_env (loaded ?d))))"
    and f: "fractional_count quiet_env ?d ''AAPL'' =
              proper_fraction_count quiet_env ?d ''AAPL'' + missing_quantity_count quiet_env ?d ''AAPL''"
    by blast+
  have f1: "fractional_count quiet_env ?d ''AAPL'' = 1"
    using f c k by simp
  have "fractional_warning ''AAPL'' 1 \<in>
          set (new_warnings (loaded ?d) (snd (validate_transaction_consistency quiet_env (loaded ?d))))"
    using w unfolding f1 .
  then show ?thesis
    unfolding m using c k by simp
qed

section \<open>Summary statistics and loading\<close>

lemma generate_summary_stats_eq:
  assumes "df v = Some d"
  shows "generate_summary_stats e v =
           (case summary_outcome d of Inl x \<Rightarrow> Inl x | Inr _ \<Rightarrow> Inr (Some (summary e d)))"
proof (cases "''Date/Time'' \<in> set (columns d)")
  case False
  with assms show ?thesis
    by (simp add: generate_summary_stats_def summary_outcome_def summary_def bindE_def getcol_def Let_def)
next
  case True
  show ?thesis
  proof (cases "dtype_of (map date_time (rows d))")
    case EmptyObject
    with True assms show ?thesis
      by (simp add: generate_summary_stats_def summary_outcome_def bindE_def getcol_def Let_def
            column_min_def column_max_def)
  next
    case ObjectDtype
    with True assms show ?thesis
      by (simp add: generate_summary_stats_def summary_outcome_def bindE_def getcol_def Let_def
            column_min_def column_max_def)
  next
    case AwareDatetime
    with True assms show ?thesis
      by (simp add: generate_summary_stats_def summary_outcome_def summary_def bindE_def getcol_def
            Let_def column_min_def column_max_def fmt_date_opt_def split: option.splits)
  next
    case NaiveDatetime
    with True assms show ?thesis
      by (simp add: generate_summary_stats_def summary_outcome_def summary_def bindE_def getcol_def
            Let_def column_min_def column_max_def fmt_date_opt_def split: option.splits)
  qed
qed

lemma summary_outcome_parsed:
  assumes "''Date/Time'' \<in> set (columns d) \<longrightarrow> parsed_dates d"
  shows "summary_outcome d = Inr ()"
  using assms by (auto simp: summary_outcome_def parsed_dates_def)

lemma summary_outcome_quality:
  assumes "quality_outcome d = Inr b"
  shows "summary_outcome d = Inr ()"
proof -
  have "date_outcome d = Inr ()"
    using assms by (cases "date_outcome d") (simp_all add: quality_outcome_def)
  then have "''Date/Time'' \<in> set (columns d) \<longrightarrow> parsed_dates d"
    by (simp add: date_outcome_ok naive_dates_def parsed_dates_def)
  then show ?thesis by (rule summary_outcome_parsed)
qed

lemma count_list_dropna:
  "count_list (dropna (map f rs)) k = length (filter (\<lambda>r. f r = Some k) rs)"
proof (induction rs)
  case Nil
  show ?case by simp
next
  case (Cons r rs)
  then show ?case by (cases "f r") auto
qed

lemma value_counts_keys:
  "set (map fst (value_counts xs)) = set (dropna xs)" "distinct (map fst (value_counts xs))"
proof -
  let ?ys = "map (\<lambda>k. (k, count_list (dropna xs) k)) (unique (dropna xs))"
  have m: "map fst ?ys = unique (dropna xs)"
    by (simp add: o_def)
  show "set (map fst (value_counts xs)) = set (dropna xs)"
    by (simp add: value_counts_def Let_def image_image set_unique)
  show "distinct (map fst (value_counts xs))"
    by (auto simp: value_counts_def Let_def distinct_map distinct_unique inj_on_def)
qed

lemma value_counts_counts:
  "map snd (value_counts xs) = map (count_list (dropna xs)) (map fst (value_counts xs))"
proof -
  have "\<forall>p\<in>set (value_counts xs). snd p = count_list (dropna xs) (fst p)"
    by (auto simp: value_counts_def Let_def)
  then show ?thesis by simp
qed

lemma value_counts_sorted: "sorted_wrt (\<ge>) (map snd (value_counts xs))"
proof -
  let ?f = "\<lambda>(k, c). - int c"
  have "sorted (map ?f (value_counts xs))"
    unfolding value_counts_def Let_def by (rule sorted_sort_key)
  then have "sorted_wrt (\<lambda>p q. ?f p \<le> ?f q) (value_counts xs)"
    by (simp add: sorted_map)
  then have "sorted_wrt (\<lambda>p q. snd p \<ge> snd q) (value_counts xs)"
    by (rule sorted_wrt_mono_rel [rotated]) auto
  then show ?thesis
    by (simp add: sorted_wrt_map)
qed

text \<open>
  Three rows with the kinds \<^verbatim>\<open>Trade\<close>, \<^verbatim>\<open>Money Movement\<close>, \<^verbatim>\<open>Money Movement\<close>:
  \<^verbatim>\<open>transaction_types\<close> lists \<^verbatim>\<open>Money Movement\<close> first, the first-seen order is
  the other one.
\<close>

theorem kind_counts_order_counterexample:
  "generate_summary_stats quiet_env (loaded \<lparr>columns = all_columns, rows = kind_rows\<rparr>) =
     Inr (Some \<lparr>total_transactions = 3, date_range = Some ''0 to 0'', unique_symbols = 1,
                transaction_types = [(''Money Movement'', 2), (''Trade'', 1)], total_volume = 0\<rparr>) \<and>
   unique (dropna (map transaction_code kind_rows)) = [''Trade'', ''Money Movement'']"
proof -
  let ?d = "\<lparr>columns = all_columns, rows = kind_rows\<rparr>"
  have p: "df (loaded ?d) = Some ?d" by (simp add: loaded_def)
  have o: "summary_outcome ?d = Inr ()"
    by (simp add: summary_outcome_def dtype_of_def kind_rows_def trade_row_def)
  have s: "summary quiet_env ?d =
             \<lparr>total_transactions = 3, date_range = Some ''0 to 0'', unique_symbols = 1,
              transaction_types = [(''Money Movement'', 2), (''Trade'', 1)], total_volume = 0\<rparr>"
    by (simp add: summary_def all_columns_def kind_rows_def trade_row_def value_counts_def sort_key_def
          nunique_def fmt_date_opt_def series_min_def series_max_def quiet_env_def example_env_def
          show_int_def show_nat.simps digit_char_def to_numeric_def)
  have u: "unique (dropna (map transaction_code kind_rows)) = [''Trade'', ''Money Movement'']"
    by (simp add: kind_rows_def trade_row_def)
  show ?thesis
    by (simp add: generate_summary_stats_eq [OF p] o s u)
qed

text \<open>
  C4, as the code has it.  On a frame with a \<^verbatim>\<open>Transaction Code\<close> column, whenever
  \<^verbatim>\<open>generate_summary_stats\<close> returns the statistics, their \<^verbatim>\<open>transaction_types\<close>
  lists every kind that occurs in the rows exactly once, each with the number of rows of
  that kind, in descending order of that number (the order \<^verbatim>\<open>value_counts\<close> gives),
  not in first-seen order; and it does return them when the \<^verbatim>\<open>Date/Time\<close> column,
  if the frame has one, holds parsed timestamps in at least one row.
\<close>

theorem kind_counts:
  assumes "df v = Some d" and "''Transaction Code'' \<in> set (columns d)"
  shows "(\<forall>st. generate_summary_stats e v = Inr (Some st) \<longrightarrow>
            distinct (map fst (transaction_types st)) \<and>
            set (map fst (transaction_types st)) = {k. Some k \<in> set (map transaction_code (rows d))} \<and>
            map snd (transaction_types st) = map (kind_count d) (map fst (transaction_types st)) \<and>
            sorted_wrt (\<ge>) (map snd (transaction_types st))) \<and>
         ((''Date/Time'' \<in> set (columns d) \<longrightarrow> parsed_dates d) \<longrightarrow>
            (\<exists>st. generate_summary_stats e v = Inr (Some st)))"
proof -
  let ?tt = "value_counts (map transaction_code (rows d))"
  have c: "count_list (dropna (map transaction_code (rows d))) = kind_count d"
    by (rule ext) (simp add: count_list_dropna kind_count_def)
  have t: "transaction_types (summary e d) = ?tt"
    using assms(2) by (simp add: summary_def)
  have 1: "distinct (map fst ?tt)" by (rule value_counts_keys)
  have 2: "set (map fst ?tt) = {k. Some k \<in> set (map transaction_code (rows d))}"
    by (simp only: value_counts_keys set_dropna)
  have 3: "map snd ?tt = map (kind_count d) (map fst ?tt)"
    using value_counts_counts [of "map transaction_code (rows d)"] unfolding c .
  have 4: "sorted_wrt (\<ge>) (map snd ?tt)" by (rule value_counts_sorted)
  have a: "st = summary e d" if "generate_summary_stats e v = Inr (Some st)" for st
    using that assms(1) by (cases "summary_outcome d") (simp_all add: generate_summary_stats_eq)
  have b: "\<exists>st. generate_summary_stats e v = Inr (Some st)"
    if "''Date/Time'' \<in> set (columns d) \<longrightarrow> parsed_dates d"
    using summary_outcome_parsed [OF that] assms(1) by (simp add: generate_summary_stats_eq)
  show ?thesis
    using a b t 1 2 3 4 by metis
qed

theorem kind_counts_witness:
  "\<exists>st. generate_summary_stats quiet_env (loaded \<lparr>columns = all_columns, rows = kind_rows\<rparr>) = Inr (Some st) \<and>
         distinct (map fst (transaction_types st)) \<and>
         map snd (transaction_types st) =
           map (kind_count \<lparr>columns = all_columns, rows = kind_rows\<rparr>) (map fst (transaction_types st)) \<and>
         sorted_wrt (\<ge>) (map snd (transaction_types st))"
proof -
  let ?d = "\<lparr>columns = all_columns, rows = kind_rows\<rparr>"
  have p: "df (loaded ?d) = Some ?d" by (simp add: loaded_def)
  have q: "''Transaction Code'' \<in> set (columns ?d)" by (simp add: all_columns_def)
  have n: "''Date/Time'' \<in> set (columns ?d) \<longrightarrow> parsed_dates ?d"
    by (simp add: parsed_dates_def dtype_of_def kind_rows_def trade_row_def)
  from kind_counts [OF p q, of quiet_env] n show ?thesis by blast
qed

text \<open>
  C9.  The claim is that the summary is computed for every loaded frame, the frame
  without rows included.  On the frame of a file that has the header of the five columns
  and no row, \<^verbatim>\<open>generate_summary_stats\<close> does not return: the minimum of the empty
  \<^verbatim>\<open>Date/Time\<close> column is the float \<^verbatim>\<open>NaN\<close>, which has no attribute
  \<^verbatim>\<open>date\<close>, and \<^verbatim>\<open>AttributeError\<close> escapes; the quality checks before it end the
  same way on \<^verbatim>\<open>days\<close>.
\<close>

theorem summary_fails_without_rows:
  "generate_summary_stats quiet_env (loaded \<lparr>columns = all_columns, rows = []\<rparr>) =
     Inl (AttributeError ''date'') \<and>
   fst (validate_data_quality quiet_env (loaded \<lparr>columns = all_columns, rows = []\<rparr>)) =
     Inl (AttributeError ''days'')"
proof -
  let ?d = "\<lparr>columns = all_columns, rows = []\<rparr>"
  have p: "df (loaded ?d) = Some ?d" by (simp add: loaded_def)
  have a: "summary_outcome ?d = Inl (AttributeError ''date'')"
    by (simp add: summary_outcome_def dtype_of_def all_columns_def)
  have b: "quality_outcome ?d = Inl (AttributeError ''days'')"
    by (simp add: quality_outcome_def date_outcome_def dtype_of_def all_columns_def)
  show ?thesis
    by (simp add: generate_summary_stats_eq [OF p] validate_data_quality_eq [OF p] a b)
qed

text \<open>
  A reader that delivers a row whose \<^verbatim>\<open>Date/Time\<close> is null (as
  \<^verbatim>\<open>pandas.read_csv\<close> does for an empty cell, raising nothing): the load succeeds and
  the loaded frame has that row.
\<close>

theorem load_keeps_blank_date_counterexample:
  "load_data (example_env [] blank_date_frame 0) legacy_validator =
     (True, legacy_validator\<lparr>df := Some blank_date_frame\<rparr>) \<and>
   map date_time (rows blank_date_frame) = [NaT]"
  by (simp add: load_data_def read_frame_def example_env_def legacy_validator_def blank_date_frame_def)

text \<open>
  C3, as the code has it.  \<^verbatim>\<open>load_data\<close> fails exactly when the statements under
  \<^verbatim>\<open>try\<close> raise: when the format was never detected (reading \<^verbatim>\<open>self.format_type\<close>
  raises), or the transformer or the reader raises; and then it appends one error with the
  text of the exception.  Otherwise it stores the frame the reader returned, unchanged: it
  drops no row and tests no timestamp itself.  The legacy format reads the file, the new
  format reads the transformer's text.
\<close>

theorem load_data_outcome:
  "(fst (load_data e v) \<longleftrightarrow> (\<exists>d. read_frame e v = Inr d)) \<and>
   (\<forall>d. read_frame e v = Inr d \<longrightarrow> snd (load_data e v) = v\<lparr>df := Some d\<rparr>) \<and>
   (\<forall>msg. read_frame e v = Inl msg \<longrightarrow>
      snd (load_data e v) = v\<lparr>errors := errors v @ [''Error loading data: '' @ msg]\<rparr>) \<and>
   (format_type v = None \<longrightarrow>
      read_frame e v = Inl no_format_type \<and>
      load_data e v = (False, v\<lparr>errors := errors v @ [''Error loading data: '' @ no_format_type]\<rparr>)) \<and>
   (\<forall>ft. format_type v = Some ft \<and> ft \<noteq> ''new'' \<longrightarrow> read_frame e v = read_csv e (Path (csv_file v))) \<and>
   (format_type v = Some ''new'' \<longrightarrow>
      read_frame e v = (case transform_csv e (csv_file v) of
                          Inl msg \<Rightarrow> Inl msg | Inr text \<Rightarrow> read_csv e (Buffer text)))"
  by (auto simp: load_data_def read_frame_def split: sum.splits)

theorem load_data_outcome_witness:
  "load_data (example_env [] \<lparr>columns = all_columns, rows = aapl_rows\<rparr> 0) legacy_validator =
     (True, legacy_validator\<lparr>df := Some \<lparr>columns = all_columns, rows = aapl_rows\<rparr>\<rparr>) \<and>
   load_data quiet_env (init ''f.csv'') =
     (False, (init ''f.csv'')\<lparr>errors := [''Error loading data: '' @ no_format_type]\<rparr>)"
proof -
  let ?e = "example_env [] \<lparr>columns = all_columns, rows = aapl_rows\<rparr> 0"
  have f: "format_type legacy_validator = Some ''legacy'' \<and> ''legacy'' \<noteq> ''new''"
    by (simp add: legacy_validator_def)
  have "read_frame ?e legacy_validator = read_csv ?e (Path (csv_file legacy_validator))"
    using load_data_outcome [of ?e legacy_validator] f by blast
  then have r: "read_frame ?e legacy_validator = Inr \<lparr>columns = all_columns, rows = aapl_rows\<rparr>"
    by (simp add: example_env_def)
  then have "fst (load_data ?e legacy_validator)"
    and "snd (load_data ?e legacy_validator) = legacy_validator\<lparr>df := Some \<lparr>columns = all_columns, rows = aapl_rows\<rparr>\<rparr>"
    using load_data_outcome [of ?e legacy_validator] by blast+
  then have a: "load_data ?e legacy_validator =
                  (True, legacy_validator\<lparr>df := Some \<lparr>columns = all_columns, rows = aapl_rows\<rparr>\<rparr>)"
    by (simp add: prod_eq_iff)
  have n: "format_type (init ''f.csv'') = None" and e: "errors (init ''f.csv'') = []"
    by (simp_all add: init_def)
  have "load_data quiet_env (init ''f.csv'') =
          (False, (init ''f.csv'')\<lparr>errors := errors (init ''f.csv'') @ [''Error loading data: '' @ no_format_type]\<rparr>)"
    using load_data_outcome [of quiet_env "init ''f.csv''"] n by blast
  then have b: "load_data quiet_env (init ''f.csv'') =
          (False, (init ''f.csv'')\<lparr>errors := [''Error loading data: '' @ no_format_type]\<rparr>)"
    unfolding e by simp
  show ?thesis using a b by simp
qed

section \<open>The full run\<close>

lemma run_format_failed:
  assumes "validate_file_format e v = (False, v1)"
  shows "run_full_validation e v =
           (Inr False, v1, banner v @ [icon_cross @ '' File format validation failed''])"
  using assms by (simp add: run_full_validation_def banner_def)

lemma run_load_failed:
  assumes "validate_file_format e v = (True, v1)" and "format_type v1 = Some ft"
    and "load_data e v1 = (False, v2)"
  shows "run_full_validation e v =
           (Inr False, v2, banner v @ [icon_check @ '' File format: '' @ ft,
                                       icon_cross @ '' Data loading failed''])"
  using assms by (simp add: run_full_validation_def banner_def)

lemma run_loaded:
  assumes "validate_file_format e v = (True, v1)" and "format_type v1 = Some ft"
    and "load_data e v1 = (True, v2)" and "df v2 = Some d"
  shows "run_full_validation e v =
           (case quality_outcome d of
              Inl x \<Rightarrow> (Inl x, v2\<lparr>warnings := warnings v2 @ quality_warnings e d\<rparr>,
                        banner v @ loaded_lines ft d)
            | Inr _ \<Rightarrow>
                (Inr (fst (display_results e (summary e d) (v2\<lparr>warnings := warnings v2 @ all_warnings e d\<rparr>))),
                 v2\<lparr>warnings := warnings v2 @ all_warnings e d\<rparr>,
                 banner v @ loaded_lines ft d @
                 snd (display_results e (summary e d) (v2\<lparr>warnings := warnings v2 @ all_warnings e d\<rparr>))))"
proof (cases "quality_outcome d")
  case (Inl x)
  with assms show ?thesis
    by (simp add: run_full_validation_def banner_def loaded_lines_def validate_data_quality_eq [of _ d])
next
  case (Inr b)
  then have "summary_outcome d = Inr ()"
    by (rule summary_outcome_quality)
  with Inr assms show ?thesis
    by (simp add: run_full_validation_def banner_def loaded_lines_def all_warnings_def
          validate_data_quality_eq [of _ d] validate_transaction_consistency_eq [of _ d]
          generate_summary_stats_eq [of _ d] case_prod_beta)
qed

lemma validate_file_format_cases:
  "(\<exists>msg. validate_file_format e v = (False, v\<lparr>errors := errors v @ [msg]\<rparr>)) \<or>
   (\<exists>ft. validate_file_format e v = (True, v\<lparr>format_type := Some ft\<rparr>))"
  by (auto simp: validate_file_format_def Let_def split: sum.splits)

lemma load_data_cases:
  "(\<exists>msg. load_data e v = (False, v\<lparr>errors := errors v @ [msg]\<rparr>)) \<or>
   (\<exists>d. load_data e v = (True, v\<lparr>df := Some d\<rparr>))"
  by (auto simp: load_data_def split: sum.splits)

lemma display_results_ok: "fst (display_results e st v) \<longleftrightarrow> errors v = []"
  by (simp add: display_results_def Let_def)

text \<open>What holds of every run that starts from a fresh validator: it stops at a format
  error or at a load error with that one error, no warning and no frame; or it returns
  \<open>True\<close> with no error; or an exception escapes from the quality checks, with no error
  recorded.\<close>

lemma run_outcomes:
  "(\<exists>msg out. run_full_validation e (init path) =
        (Inr False, (init path)\<lparr>errors := [msg]\<rparr>, out)) \<or>
   (\<exists>msg ft out. run_full_validation e (init path) =
        (Inr False, (init path)\<lparr>format_type := Some ft, errors := [msg]\<rparr>, out)) \<or>
   (\<exists>ft d out. run_full_validation e (init path) =
        (Inr True, (init path)\<lparr>format_type := Some ft, df := Some d, warnings := all_warnings e d\<rparr>, out)) \<or>
   (\<exists>x ft d out. quality_outcome d = Inl x \<and>
      run_full_validation e (init path) =
        (Inl x, (init path)\<lparr>format_type := Some ft, df := Some d, warnings := quality_warnings e d\<rparr>, out))"
proof -
  let ?v = "init path"
  consider msg where "validate_file_format e ?v = (False, ?v\<lparr>errors := errors ?v @ [msg]\<rparr>)"
    | ft where "validate_file_format e ?v = (True, ?v\<lparr>format_type := Some ft\<rparr>)"
    using validate_file_format_cases [of e ?v] by blast
  then show ?thesis
  proof cases
    case 1
    from run_format_failed [OF 1] show ?thesis
      by (simp add: init_def)
  next
    case 2
    let ?v1 = "?v\<lparr>format_type := Some ft\<rparr>"
    have f: "format_type ?v1 = Some ft" by simp
    consider msg where "load_data e ?v1 = (False, ?v1\<lparr>errors := errors ?v1 @ [msg]\<rparr>)"
      | d where "load_data e ?v1 = (True, ?v1\<lparr>df := Some d\<rparr>)"
      using load_data_cases [of e ?v1] by blast
    then show ?thesis
    proof cases
      case 1
      from run_load_failed [OF 2 f 1] show ?thesis
        by (simp add: init_def)
    next
      case (2 d)
      have g: "df (?v1\<lparr>df := Some d\<rparr>) = Some d" by simp
      note r = run_loaded [OF \<open>validate_file_format e ?v = (True, ?v1)\<close> f 2 g]
      show ?thesis
      proof (cases "quality_outcome d")
        case (Inl x)
        with r show ?thesis by (simp add: init_def)
      next
        case (Inr b)
        with r show ?thesis by (simp add: init_def display_results_ok)
      qed
    qed
  qed
qed

text \<open>
  C2.  The claim is that the run succeeds exactly when the errors list is empty.  For a
  file whose header record has a quoted field running over the first line break, so that
  its first line holds the legacy token \<^verbatim>\<open>Amount\<close> and no token of the new format, and
  whose frame has the columns \<^verbatim>\<open>Amount\<close> and \<^verbatim>\<open>Date/Time\<close> and no
  \<^verbatim>\<open>Transaction Code\<close>, detection and loading succeed, \<^verbatim>\<open>KeyError\<close> escapes from
  the zero-amount rule and from the run, no error was recorded, and the process ends with
  status 1.
\<close>

theorem run_crashes_without_error:
  "fst (run_full_validation crash_env (init ''f.csv'')) = Inl (KeyError ''Transaction Code'') \<and>
   errors (fst (snd (run_full_validation crash_env (init ''f.csv'')))) = [] \<and>
   fst (main crash_env [''data_validator.py'', ''f.csv'']) = 1"
proof -
  let ?d = "\<lparr>columns = [''Amount'', ''Note'' @ newline @ ''x'', ''Date/Time''], rows = [trade_row]\<rparr>"
  let ?v = "init ''f.csv''"
  have a: "validate_file_format crash_env ?v = (True, ?v\<lparr>format_type := Some ''legacy''\<rparr>)"
    by (simp add: validate_file_format_def crash_env_def example_env_def init_def strip_def
          py_isspace_def newline_def new_format_headers_def legacy_format_headers_def
          sublist_Cons_right)
  have b: "load_data crash_env (?v\<lparr>format_type := Some ''legacy''\<rparr>) =
             (True, ?v\<lparr>format_type := Some ''legacy'', df := Some ?d\<rparr>)"
    by (simp add: load_data_def read_frame_def crash_env_def example_env_def init_def)
  have q: "quality_outcome ?d = Inl (KeyError ''Transaction Code'')"
    by (simp add: quality_outcome_def date_outcome_def dtype_of_def trade_row_def newline_def)
  have r: "run_full_validation crash_env ?v =
             (Inl (KeyError ''Transaction Code''),
              ?v\<lparr>format_type := Some ''legacy'', df := Some ?d,
                  warnings := quality_warnings crash_env ?d\<rparr>,
              banner ?v @ loaded_lines ''legacy'' ?d)"
    using run_loaded [OF a _ b, of "''legacy''" ?d] unfolding q by (simp add: init_def)
  then show ?thesis
    by (simp add: main_def init_def)
qed

subsection \<open>The clock\<close>

lemma to_numeric_clock: "to_numeric (e\<lparr>now := t\<rparr>) = to_numeric e"
proof (rule ext)
  fix c
  show "to_numeric (e\<lparr>now := t\<rparr>) c = to_numeric e c"
    by (cases c) (simp_all add: to_numeric_def)
qed

lemma fmt_date_opt_clock: "fmt_date_opt (e\<lparr>now := t\<rparr>) = fmt_date_opt e"
proof (rule ext)
  fix x
  show "fmt_date_opt (e\<lparr>now := t\<rparr>) x = fmt_date_opt e x"
    by (cases x) (simp_all add: fmt_date_opt_def)
qed

lemma fractional_warnings_clock: "fractional_warnings (e\<lparr>now := t\<rparr>) d = fractional_warnings e d"
  by (rule ext) (simp add: fractional_warnings_def fractional_count_def to_numeric_clock)

lemma read_frame_clock: "read_frame (e\<lparr>now := t\<rparr>) v = read_frame e v"
  by (simp add: read_frame_def split: option.splits sum.splits)

lemma clock_free:
  "validate_file_format (e\<lparr>now := t\<rparr>) v = validate_file_format e v"
  "load_data (e\<lparr>now := t\<rparr>) v = load_data e v"
  "summary (e\<lparr>now := t\<rparr>) d = summary e d"
  "display_results (e\<lparr>now := t\<rparr>) st v = display_results e st v"
  by (simp_all add: validate_file_format_def load_data_def read_frame_clock summary_def
        display_results_def fmt_date_opt_clock to_numeric_clock cong: if_cong)

lemma warnings_clock:
  assumes "future_count (e\<lparr>now := t1\<rparr>) d = future_count (e\<lparr>now := t2\<rparr>) d"
  shows "quality_warnings (e\<lparr>now := t1\<rparr>) d = quality_warnings (e\<lparr>now := t2\<rparr>) d"
    and "all_warnings (e\<lparr>now := t1\<rparr>) d = all_warnings (e\<lparr>now := t2\<rparr>) d"
proof -
  have "range_warnings (e\<lparr>now := t\<rparr>) d = range_warnings e d"
    and "large_amount_warnings (e\<lparr>now := t\<rparr>) d = large_amount_warnings e d"
    and "zero_amount_warnings (e\<lparr>now := t\<rparr>) d = zero_amount_warnings e d"
    and "symbol_warnings (e\<lparr>now := t\<rparr>) d = symbol_warnings e d"
    and "consistency_warnings (e\<lparr>now := t\<rparr>) d = consistency_warnings e d" for t
    by (simp_all add: range_warnings_def large_amount_warnings_def large_amount_count_def
          zero_amount_warnings_def zero_amount_count_def symbol_warnings_def
          consistency_warnings_def fractional_warnings_clock
          to_numeric_clock cong: if_cong option.case_cong)
  moreover have "future_warnings (e\<lparr>now := t1\<rparr>) d = future_warnings (e\<lparr>now := t2\<rparr>) d"
    using assms by (simp add: future_warnings_def)
  ultimately show "quality_warnings (e\<lparr>now := t1\<rparr>) d = quality_warnings (e\<lparr>now := t2\<rparr>) d"
    and "all_warnings (e\<lparr>now := t1\<rparr>) d = all_warnings (e\<lparr>now := t2\<rparr>) d"
    by (simp_all add: quality_warnings_def quality_prefix_def all_warnings_def
          cong: sum.case_cong if_cong)
qed

text \<open>
  C8, as the code has it.  Two runs on the same file, in the same environment but for the
  reading of \<^verbatim>\<open>datetime.now()\<close>, return the same outcome, leave the same validator and
  print the same lines whenever both readings leave the same number of rows of the loaded
  frame in the future: the clock enters the report through the future-dates rule only.
\<close>

theorem report_clock_dependence:
  assumes "\<And>d. df (snd (load_data e (snd (validate_file_format e v)))) = Some d \<Longrightarrow>
             future_count (e\<lparr>now := t1\<rparr>) d = future_count (e\<lparr>now := t2\<rparr>) d"
  shows "run_full_validation (e\<lparr>now := t1\<rparr>) v = run_full_validation (e\<lparr>now := t2\<rparr>) v"
proof -
  consider msg where "validate_file_format e v = (False, v\<lparr>errors := errors v @ [msg]\<rparr>)"
    | ft where "validate_file_format e v = (True, v\<lparr>format_type := Some ft\<rparr>)"
    using validate_file_format_cases [of e v] by blast
  then show ?thesis
  proof cases
    case 1
    then have "validate_file_format (e\<lparr>now := t\<rparr>) v = (False, v\<lparr>errors := errors v @ [msg]\<rparr>)" for t
      by (simp add: clock_free)
    from run_format_failed [OF this] show ?thesis by simp
  next
    case 2
    let ?v1 = "v\<lparr>format_type := Some ft\<rparr>"
    have a: "validate_file_format (e\<lparr>now := t\<rparr>) v = (True, ?v1)" for t
      using 2 by (simp add: clock_free)
    have f: "format_type ?v1 = Some ft" by simp
    consider msg where "load_data e ?v1 = (False, ?v1\<lparr>errors := errors ?v1 @ [msg]\<rparr>)"
      | d where "load_data e ?v1 = (True, ?v1\<lparr>df := Some d\<rparr>)"
      using load_data_cases [of e ?v1] by blast
    then show ?thesis
    proof cases
      case 1
      then have "load_data (e\<lparr>now := t\<rparr>) ?v1 = (False, ?v1\<lparr>errors := errors ?v1 @ [msg]\<rparr>)" for t
        by (simp add: clock_free)
      from run_load_failed [OF a f this] show ?thesis by simp
    next
      case (2 d)
      then have b: "load_data (e\<lparr>now := t\<rparr>) ?v1 = (True, ?v1\<lparr>df := Some d\<rparr>)" for t
        by (simp add: clock_free)
      have g: "df (?v1\<lparr>df := Some d\<rparr>) = Some d" by simp
      have "df (snd (load_data e (snd (validate_file_format e v)))) = Some d"
        using \<open>validate_file_format e v = (True, ?v1)\<close> 2 by simp
      then have c: "future_count (e\<lparr>now := t1\<rparr>) d = future_count (e\<lparr>now := t2\<rparr>) d"
        by (rule assms)
      show ?thesis
        unfolding run_loaded [OF a f b g]
        by (cases "quality_outcome d") (simp_all add: warnings_clock [OF c] clock_free)
    qed
  qed
qed

theorem report_clock_dependence_witness:
  "run_full_validation (clock_env 10) (init ''f.csv'') = run_full_validation (clock_env 20) (init ''f.csv'')"
proof -
  let ?e = "clock_env 0"
  have e: "clock_env t = ?e\<lparr>now := t\<rparr>" for t
    by (simp add: clock_env_def example_env_def)
  have "future_count (?e\<lparr>now := 10\<rparr>) d = future_count (?e\<lparr>now := 20\<rparr>) d"
    if "df (snd (load_data ?e (snd (validate_file_format ?e (init ''f.csv''))))) = Some d" for d
  proof -
    have "d = clock_frame"
      using that
      by (simp add: validate_file_format_def load_data_def read_frame_def clock_env_def example_env_def
            init_def strip_def py_isspace_def new_format_headers_def sublist_Cons_right)
    then show ?thesis
      by (simp add: future_count_def is_future_def clock_frame_def trade_row_def)
  qed
  from report_clock_dependence [of ?e "init ''f.csv''" 10 20, OF this] show ?thesis
    by (simp only: e [symmetric])
qed

text \<open>
  The same file, read at clock 0 and at clock 10, with one row dated 5: the first report
  has the future-dates warning line, the second has not.
\<close>

theorem report_clock_counterexample:
  "future_line \<in> set (snd (snd (run_full_validation (clock_env 0) (init ''f.csv'')))) \<and>
   future_line \<notin> set (snd (snd (run_full_validation (clock_env 10) (init ''f.csv''))))"
proof -
  let ?v = "init ''f.csv''"
  have a: "validate_file_format (clock_env t) ?v = (True, ?v\<lparr>format_type := Some ''new''\<rparr>)" for t
    by (simp add: validate_file_format_def clock_env_def example_env_def init_def strip_def
          py_isspace_def new_format_headers_def sublist_Cons_right)
  have b: "load_data (clock_env t) (?v\<lparr>format_type := Some ''new''\<rparr>) =
             (True, ?v\<lparr>format_type := Some ''new'', df := Some clock_frame\<rparr>)" for t
    by (simp add: load_data_def read_frame_def clock_env_def example_env_def init_def)
  have q: "quality_outcome clock_frame = Inr True"
    by (simp add: quality_outcome_def date_outcome_def symbol_outcome_def str_accessor_def
          dtype_of_def clock_frame_def all_columns_def trade_row_def)
  have w: "all_warnings (clock_env t) clock_frame =
             (if t < 5 then [''1 transactions have future dates''] else []) @
             [''1 transactions with zero amounts'']" for t
    by (simp add: all_warnings_def quality_warnings_def date_outcome_def naive_dates_def
          parsed_dates_def dtype_of_def
          quality_prefix_def missing_warnings_def range_warnings_def
          future_warnings_def future_count_def is_future_def large_amount_warnings_def
          large_amount_count_def zero_amount_warnings_def zero_amount_count_def
          zero_amount_warning_def symbol_warnings_def consistency_warnings_def
          fractional_warnings_def fractional_count_def not_whole_def clock_env_def example_env_def
          clock_frame_def all_columns_def trade_row_def isna_col_def series_min_def series_max_def
          ns_per_day_def to_numeric_def nan_gt_def nan_abs_def str_match_def
          symbol_char_def show_nat.simps digit_char_def Let_def suffix_def)
  have tt: "transaction_types (summary (clock_env t) clock_frame) = [(''Trade'', 1)]" for t
    by (simp add: summary_def clock_frame_def all_columns_def trade_row_def value_counts_def
          sort_key_def)
  have r: "snd (snd (run_full_validation (clock_env t) ?v)) =
             banner ?v @ loaded_lines ''new'' clock_frame @
             snd (display_results (clock_env t) (summary (clock_env t) clock_frame)
                    (?v\<lparr>format_type := Some ''new'', df := Some clock_frame,
                        warnings := all_warnings (clock_env t) clock_frame\<rparr>))" for t
    using run_loaded [OF a _ b, of "''new''" clock_frame t] unfolding q by (simp add: init_def)
  have n: "future_line \<noteq> replicate 60 (CHR ''='')"
  proof
    assume "future_line = replicate 60 (CHR ''='')"
    then have "set future_line = set (replicate 60 (CHR ''=''))" by simp
    then show False by (simp add: future_line_def)
  qed
  have m0: "future_line \<in> set (snd (snd (run_full_validation (clock_env 0) ?v)))"
    unfolding r w
    by (simp add: display_results_def tt future_line_def Let_def init_def)
  have m1: "future_line \<notin> set (snd (snd (run_full_validation (clock_env 10) ?v)))"
    unfolding r w using n
    by (simp add: display_results_def tt banner_def loaded_lines_def init_def Let_def)
       (simp add: future_line_def newline_def icon_bullet_def icon_search_def icon_check_def)
  show ?thesis
    using m0 m1 by simp
qed

end
